theory Spec2Isabelle
  imports Main "HOL-Library.AList"
begin

section \<open>Shared data: JSON values, errors, decimal rendering\<close>

text \<open>
  Values produced by \<^verbatim>\<open>JSON.parse\<close>. An object keeps its properties as an association
  list; a property is read with \<open>map_of\<close>. \<^verbatim>\<open>JSON.parse\<close> and \<^verbatim>\<open>JSON.stringify\<close>
  themselves belong to the platform and are taken as parameters (\<open>parse\<close> returns
  \<open>None\<close> where the platform function throws a SyntaxError). JavaScript numbers are
  modelled as \<open>int\<close>: every counter of the program is integer valued.
\<close>

datatype json =
    JNull
  | JBool bool
  | JNum int
  | JStr string
  | JArr "json list"
  | JObj "(string \<times> json) list"

text \<open>
  The three error classes of \<^verbatim>\<open>core/types.ts\<close>. Each carries its message; the transport
  and session errors also carry the session id. The \<^verbatim>\<open>code\<close> field is fixed by the class
  and the optional \<^verbatim>\<open>cause\<close> is not modelled.
\<close>

datatype error =
    TransportError string string
  | ProcessError string
  | SessionError string string

fun message_of :: "error \<Rightarrow> string" where
  "message_of (TransportError m s) = m"
| "message_of (ProcessError m) = m"
| "message_of (SessionError m s) = m"

text \<open>Decimal rendering of numbers inside template strings.\<close>

definition digit :: "nat \<Rightarrow> char" where
  "digit n = ''0123456789'' ! n"

fun dec_nat :: "nat \<Rightarrow> string" where
  "dec_nat n = (if n < 10 then [digit n] else dec_nat (n div 10) @ [digit (n mod 10)])"

declare dec_nat.simps [simp del]

definition dec_int :: "int \<Rightarrow> string" where
  "dec_int i = (if i < 0 then CHR ''-'' # dec_nat (nat (- i)) else dec_nat (nat i))"

section \<open>The process supervisor (\<^verbatim>\<open>process/MCPProcessManager.ts\<close>)\<close>

datatype proc_state = stopped | starting | running | stopping | crashed

datatype restart_policy = always | on_failure | never

text \<open>
  \<^verbatim>\<open>ProcessManagerConfig\<close>: an optional property is an \<open>option\<close>. The working directory
  and the environment only reach \<^verbatim>\<open>spawn\<close>, whose outcome is an input of the model.
\<close>

record ProcessManagerConfig =
  command :: "string list"
  healthCheckUrl :: "string option"
  restartPolicy :: "restart_policy option"
  maxRestartAttempts :: "int option"
  healthCheckInterval :: "int option"
  idleTimeout :: "int option"

record ProcessStatus =
  pid :: "int option"
  status :: proc_state
  startTime :: "int option"
  restartCount :: nat
  lastError :: "string option"
  isHealthy :: bool

record ChildProcess =
  child_pid :: "int option"
  killed :: bool

datatype pm_event =
    BACKEND_STARTED "int option"
  | BACKEND_STOPPED
  | BACKEND_CRASHED error

text \<open>
  The supervisor object. \<open>lockFile\<close> is the content of the file at \<^verbatim>\<open>lockFilePath\<close>
  (\<open>None\<close>: the file does not exist); file operations on it are taken to succeed.
  \<open>pm_events\<close> is the trace of emitted events, \<open>restartSleeps\<close> the sleeps that
  \<^verbatim>\<open>attemptRestart\<close> is suspended on, in the order they began: for each the time in
  milliseconds that its timer waits.
\<close>

record MCPProcessManager =
  pm_config :: "ProcessManagerConfig option"
  process :: "ChildProcess option"
  pm_status :: ProcessStatus
  healthCheckTimer :: bool
  idleTimer :: bool
  lockFile :: "string option"
  pm_lastActivity :: int
  pm_events :: "pm_event list"
  restartSleeps :: "nat list"

definition DEFAULT_MAX_RESTART_ATTEMPTS :: int where
  "DEFAULT_MAX_RESTART_ATTEMPTS = 3"

definition DEFAULT_HEALTH_CHECK_INTERVAL :: int where
  "DEFAULT_HEALTH_CHECK_INTERVAL = 5000"

definition DEFAULT_SESSION_IDLE_TIMEOUT :: int where
  "DEFAULT_SESSION_IDLE_TIMEOUT = 600000"

definition new_manager :: "int \<Rightarrow> MCPProcessManager" where
  "new_manager now =
     \<lparr> pm_config = None, process = None,
       pm_status = \<lparr> pid = None, status = stopped, startTime = None, restartCount = 0,
                     lastError = None, isHealthy = False \<rparr>,
       healthCheckTimer = False, idleTimer = False, lockFile = None,
       pm_lastActivity = now, pm_events = [], restartSleeps = [] \<rparr>"

text \<open>\<^verbatim>\<open>{ defaults, ...config }\<close>: a property the caller gives wins over the default.\<close>

definition with_defaults :: "ProcessManagerConfig \<Rightarrow> ProcessManagerConfig" where
  "with_defaults c =
     c \<lparr> restartPolicy := (case restartPolicy c of None \<Rightarrow> Some on_failure | Some p \<Rightarrow> Some p),
         maxRestartAttempts :=
           (case maxRestartAttempts c of None \<Rightarrow> Some DEFAULT_MAX_RESTART_ATTEMPTS | Some n \<Rightarrow> Some n),
         healthCheckInterval :=
           (case healthCheckInterval c of None \<Rightarrow> Some DEFAULT_HEALTH_CHECK_INTERVAL | Some n \<Rightarrow> Some n),
         idleTimeout :=
           (case idleTimeout c of None \<Rightarrow> Some DEFAULT_SESSION_IDLE_TIMEOUT | Some n \<Rightarrow> Some n) \<rparr>"

definition updateStatus ::
  "proc_state \<Rightarrow> int option \<Rightarrow> int option \<Rightarrow> MCPProcessManager \<Rightarrow> MCPProcessManager" where
  "updateStatus s p t m =
     m \<lparr> pm_status :=
           (pm_status m)
             \<lparr> status := s,
               pid := (case p of None \<Rightarrow> pid (pm_status m) | Some v \<Rightarrow> Some v),
               startTime := (case t of None \<Rightarrow> startTime (pm_status m) | Some v \<Rightarrow> Some v),
               isHealthy := (if s = crashed then False else isHealthy (pm_status m)) \<rparr> \<rparr>"

definition clearTimers :: "MCPProcessManager \<Rightarrow> MCPProcessManager" where
  "clearTimers m = m \<lparr> healthCheckTimer := False, idleTimer := False \<rparr>"

definition cleanup :: "MCPProcessManager \<Rightarrow> MCPProcessManager" where
  "cleanup m = (clearTimers m) \<lparr> process := None, lockFile := None \<rparr>"

definition pm_emit :: "pm_event \<Rightarrow> MCPProcessManager \<Rightarrow> MCPProcessManager" where
  "pm_emit e m = m \<lparr> pm_events := pm_events m @ [e] \<rparr>"

subsection \<open>The lock file\<close>

text \<open>
  \<^verbatim>\<open>lockData.pid\<close>: reading a property of \<^verbatim>\<open>null\<close> throws, of any other value that is
  not an object with that property it yields \<^verbatim>\<open>undefined\<close>.
\<close>

datatype 'a js_read = Throws | Undefined | Value 'a

fun get_pid :: "json \<Rightarrow> json js_read" where
  "get_pid JNull = Throws"
| "get_pid (JObj ps) = (case map_of ps ''pid'' of None \<Rightarrow> Undefined | Some v \<Rightarrow> Value v)"
| "get_pid _ = Undefined"

text \<open>
  \<open>kill0 v\<close> says that \<^verbatim>\<open>process.kill(v, 0)\<close> returns normally, which the source reads as
  "the process exists"; on \<^verbatim>\<open>undefined\<close> the call throws. The result is whether another
  instance runs, and the supervisor with the lock file as the call leaves it.
\<close>

definition isAnotherInstanceRunning ::
  "(string \<Rightarrow> json option) \<Rightarrow> (json \<Rightarrow> bool) \<Rightarrow> MCPProcessManager \<Rightarrow> bool \<times> MCPProcessManager" where
  "isAnotherInstanceRunning parse kill0 m =
     (case lockFile m of
        None \<Rightarrow> (False, m)
      | Some content \<Rightarrow>
          (case parse content of
             None \<Rightarrow> (False, m \<lparr> lockFile := None \<rparr>)
           | Some lockData \<Rightarrow>
               (case get_pid lockData of
                  Throws \<Rightarrow> (False, m \<lparr> lockFile := None \<rparr>)
                | Undefined \<Rightarrow> (False, m \<lparr> lockFile := None \<rparr>)
                | Value p \<Rightarrow>
                    if kill0 p then (True, m) else (False, m \<lparr> lockFile := None \<rparr>))))"

text \<open>
  What one run of \<^verbatim>\<open>startProcess\<close> meets outside the supervisor: the supervisor's own
  pid and the clock, whether \<^verbatim>\<open>spawn\<close> throws (with which message) and the child's pid,
  and whether \<^verbatim>\<open>waitForProcessReady\<close> throws (\<^verbatim>\<open>Process died during startup\<close>,
  \<^verbatim>\<open>Process failed to become ready within timeout\<close>) or returns.
\<close>

record start_env =
  ownPid :: int
  env_clock :: int
  spawnThrows :: "string option"
  spawnedPid :: "int option"
  readyThrows :: "string option"

definition createLockFile ::
  "(json \<Rightarrow> string) \<Rightarrow> start_env \<Rightarrow> ProcessManagerConfig \<Rightarrow> MCPProcessManager \<Rightarrow> MCPProcessManager" where
  "createLockFile stringify env c m =
     m \<lparr> lockFile :=
           Some (stringify (JObj [(''pid'', JNum (ownPid env)),
                                  (''startTime'', JNum (env_clock env)),
                                  (''command'', JArr (map JStr (command c)))])) \<rparr>"

definition truthy :: "string option \<Rightarrow> bool" where
  "truthy s = (case s of None \<Rightarrow> False | Some v \<Rightarrow> v \<noteq> [])"

definition startHealthCheck :: "ProcessManagerConfig \<Rightarrow> MCPProcessManager \<Rightarrow> MCPProcessManager" where
  "startHealthCheck c m =
     (if \<not> truthy (healthCheckUrl c) \<or> healthCheckInterval c = None \<or> healthCheckInterval c = Some 0
      then m else m \<lparr> healthCheckTimer := True \<rparr>)"

definition resetIdleTimer :: "ProcessManagerConfig \<Rightarrow> MCPProcessManager \<Rightarrow> MCPProcessManager" where
  "resetIdleTimer c m =
     (if idleTimeout c = None \<or> idleTimeout c = Some 0
      then m \<lparr> idleTimer := False \<rparr> else m \<lparr> idleTimer := True \<rparr>)"

definition failStart :: "string \<Rightarrow> MCPProcessManager \<Rightarrow> (error + unit) \<times> MCPProcessManager" where
  "failStart msg m = (Inl (ProcessError (''Failed to start process: '' @ msg)), cleanup m)"

definition startProcess ::
  "(json \<Rightarrow> string) \<Rightarrow> start_env \<Rightarrow> MCPProcessManager \<Rightarrow> (error + unit) \<times> MCPProcessManager" where
  "startProcess stringify env m =
     (if process m \<noteq> None then (Inl (ProcessError ''Process is already running''), m)
      else
        let m1 = updateStatus starting None None m in
        (case pm_config m1 of
           None \<Rightarrow> failStart ''Cannot read properties of undefined'' m1
         | Some c \<Rightarrow>
             let m2 = createLockFile stringify env c m1 in
             (case spawnThrows env of
                Some msg \<Rightarrow> failStart msg m2
              | None \<Rightarrow>
                  let m3 = m2 \<lparr> process := Some \<lparr> child_pid = spawnedPid env, killed = False \<rparr> \<rparr> in
                  (case readyThrows env of
                     Some msg \<Rightarrow> failStart msg m3
                   | None \<Rightarrow>
                       let m4 = updateStatus running (spawnedPid env) (Some (env_clock env)) m3;
                           m5 = resetIdleTimer c (startHealthCheck c m4)
                       in (Inr (), pm_emit (BACKEND_STARTED (spawnedPid env)) m5)))))"

definition conflict :: error where
  "conflict = ProcessError ''Another MCP process instance is already running''"

definition start ::
  "(string \<Rightarrow> json option) \<Rightarrow> (json \<Rightarrow> bool) \<Rightarrow> (json \<Rightarrow> string) \<Rightarrow> start_env \<Rightarrow>
     ProcessManagerConfig \<Rightarrow> MCPProcessManager \<Rightarrow> (error + unit) \<times> MCPProcessManager" where
  "start parse kill0 stringify env config m =
     (let m0 = m \<lparr> pm_config := Some (with_defaults config) \<rparr> in
      case isAnotherInstanceRunning parse kill0 m0 of
        (True, m1) \<Rightarrow> (Inl conflict, m1)
      | (False, m1) \<Rightarrow> startProcess stringify env m1)"

subsection \<open>Crash handling\<close>

text \<open>
  \<^verbatim>\<open>Utils.sleep(ms)\<close> is \<^verbatim>\<open>new Promise(resolve => setTimeout(resolve, ms))\<close>. A timer of
  the platform waits the delay it is given when that lies between 1 and 2147483647
  milliseconds; any other delay is replaced by 1 millisecond.
\<close>

definition TIMEOUT_MAX :: nat where
  "TIMEOUT_MAX = 2147483647"

definition sleep_ms :: "nat \<Rightarrow> nat" where
  "sleep_ms ms = (if ms < 1 \<or> TIMEOUT_MAX < ms then 1 else ms)"

text \<open>
  \<^verbatim>\<open>attemptRestart\<close> up to its first suspension: either it returns at once, or it
  counts the attempt and calls \<^verbatim>\<open>Utils.sleep(Math.pow(2, restartCount) * 1000)\<close>,
  \<^verbatim>\<open>restartCount\<close> read after the increment. \<^verbatim>\<open>maxRestartAttempts || 0\<close> reads an absent
  value as 0. The count starts at 0 and nothing but this increment changes it. The product
  is exact in double arithmetic as long as it is a delay that a timer accepts; beyond
  that, infinity included, the timer waits 1 millisecond whatever the value.
\<close>

definition maxAttempts :: "ProcessManagerConfig \<Rightarrow> int" where
  "maxAttempts c = (case maxRestartAttempts c of None \<Rightarrow> 0 | Some n \<Rightarrow> n)"

definition backoff_ms :: "nat \<Rightarrow> nat" where
  "backoff_ms n = 2 ^ n * 1000"

definition attemptRestart :: "MCPProcessManager \<Rightarrow> MCPProcessManager" where
  "attemptRestart m =
     (case pm_config m of
        None \<Rightarrow> m
      | Some c \<Rightarrow>
          if restartPolicy c = Some never then m
          else if int (restartCount (pm_status m)) \<ge> maxAttempts c then m
          else
            let n = restartCount (pm_status m) + 1 in
            m \<lparr> pm_status := (pm_status m) \<lparr> restartCount := n \<rparr>,
                restartSleeps := restartSleeps m @ [sleep_ms (backoff_ms n)] \<rparr>)"

text \<open>
  The continuation of \<^verbatim>\<open>attemptRestart\<close> when the sleep it is suspended on is over:
  \<^verbatim>\<open>await this.startProcess()\<close>, whose error the \<^verbatim>\<open>catch\<close> only logs.
\<close>

definition restartAfterSleep ::
  "(json \<Rightarrow> string) \<Rightarrow> start_env \<Rightarrow> MCPProcessManager \<Rightarrow> MCPProcessManager" where
  "restartAfterSleep stringify env m =
     (case restartSleeps m of
        [] \<Rightarrow> m
      | d # ds \<Rightarrow> snd (startProcess stringify env (m \<lparr> restartSleeps := ds \<rparr>)))"

text \<open>\<^verbatim>\<open>${code}\<close> and \<^verbatim>\<open>${signal}\<close>: either may be \<^verbatim>\<open>null\<close>.\<close>

definition show_code :: "int option \<Rightarrow> string" where
  "show_code c = (case c of None \<Rightarrow> ''null'' | Some n \<Rightarrow> dec_int n)"

definition show_signal :: "string option \<Rightarrow> string" where
  "show_signal s = (case s of None \<Rightarrow> ''null'' | Some n \<Rightarrow> n)"

definition exit_error :: "int option \<Rightarrow> string option \<Rightarrow> error" where
  "exit_error code signal =
     ProcessError (''Process exited unexpectedly with code '' @ show_code code
                   @ '', signal '' @ show_signal signal)"

text \<open>The listener of the child's \<^verbatim>\<open>exit\<close> event.\<close>

definition on_exit :: "int option \<Rightarrow> string option \<Rightarrow> MCPProcessManager \<Rightarrow> MCPProcessManager" where
  "on_exit code signal m =
     (if status (pm_status m) = stopping
      then cleanup (pm_emit BACKEND_STOPPED (updateStatus stopped None None m))
      else
        cleanup (attemptRestart
          (pm_emit (BACKEND_CRASHED (exit_error code signal)) (updateStatus crashed None None m))))"

text \<open>The listener of the child's \<^verbatim>\<open>error\<close> event: no restart is attempted.\<close>

definition on_error :: "string \<Rightarrow> MCPProcessManager \<Rightarrow> MCPProcessManager" where
  "on_error msg m =
     cleanup (pm_emit (BACKEND_CRASHED (ProcessError (''Process error: '' @ msg)))
                (updateStatus crashed None None m))"

text \<open>
  The condition under which \<^verbatim>\<open>start\<close> is refused: the lock file exists, parses, records
  a pid, and the probe of that pid succeeds.
\<close>

definition lock_is_live ::
  "(string \<Rightarrow> json option) \<Rightarrow> (json \<Rightarrow> bool) \<Rightarrow> string option \<Rightarrow> bool" where
  "lock_is_live parse kill0 f =
     (case f of
        None \<Rightarrow> False
      | Some content \<Rightarrow>
          (case parse content of
             None \<Rightarrow> False
           | Some d \<Rightarrow> (case get_pid d of Value p \<Rightarrow> kill0 p | _ \<Rightarrow> False)))"

section \<open>The stdio transport adapter (\<^verbatim>\<open>transport/StdioTransportAdapter.ts\<close>)\<close>

record 'p SessionEnvelope =
  sessionId :: string
  sequence :: nat
  payload :: 'p
  timestamp :: int

text \<open>
  What the adapter emits as \<^verbatim>\<open>message.inbound\<close>: the sequence is whatever the backend
  declared (\<open>None\<close>: \<^verbatim>\<open>undefined\<close>).
\<close>

record InboundEnvelope =
  in_sessionId :: string
  in_sequence :: "json option"
  in_payload :: json
  in_timestamp :: int

datatype t_event =
    MessageOutbound "json SessionEnvelope"
  | MessageInbound InboundEnvelope
  | ErrorEvent error
  | TRANSPORT_CONNECTED
  | TRANSPORT_DISCONNECTED

datatype backend_type = Http | WebSocket

datatype ready_state = CONNECTING | OPEN | CLOSING | CLOSED

text \<open>
  The adapter object; \<open>'c\<close> is the character type of the text read from stdin. A timer
  made by \<^verbatim>\<open>setTimeout\<close> is a handle (a number); \<open>t_timers\<close> holds the timers that are
  armed, each with the sequence its callback closes over, and \<open>t_pendingRequests\<close> the
  map from sequence to handle. \<open>emitted\<close> is the trace of emitted events and \<open>stdout\<close>
  the lines written to the client.
\<close>

record 'c StdioTransportAdapter =
  backendType :: backend_type
  timeout :: nat
  isStarted :: bool
  backendConnected :: bool
  t_sessionId :: string
  messageBuffer :: "'c list"
  websocket :: "ready_state option"
  outboundSequence :: nat
  t_pendingRequests :: "(nat \<times> nat) list"
  t_timers :: "(nat \<times> nat) list"
  t_nextTimer :: nat
  emitted :: "t_event list"
  stdout :: "string list"

definition new_adapter :: "backend_type \<Rightarrow> string \<Rightarrow> 'c StdioTransportAdapter" where
  "new_adapter bt sid =
     \<lparr> backendType = bt, timeout = 30000, isStarted = False, backendConnected = False,
       t_sessionId = sid, messageBuffer = [], websocket = None, outboundSequence = 0,
       t_pendingRequests = [], t_timers = [], t_nextTimer = 0, emitted = [], stdout = [] \<rparr>"

definition emit :: "t_event \<Rightarrow> 'c StdioTransportAdapter \<Rightarrow> 'c StdioTransportAdapter" where
  "emit e t = t \<lparr> emitted := emitted t @ [e] \<rparr>"

subsection \<open>Framing of stdin\<close>

text \<open>\<^verbatim>\<open>String.prototype.split\<close> with a one-character separator: never the empty array.\<close>

fun js_split :: "'c \<Rightarrow> 'c list \<Rightarrow> 'c list list" where
  "js_split d [] = [[]]"
| "js_split d (x # xs) =
     (if x = d then [] # js_split d xs
      else (case js_split d xs of [] \<Rightarrow> [[x]] | l # ls \<Rightarrow> (x # l) # ls))"








subsection \<open>Sending, response timers\<close>

definition clearTimeout :: "nat \<Rightarrow> (nat \<times> 'a) list \<Rightarrow> (nat \<times> 'a) list" where
  "clearTimeout h ts = filter (\<lambda>e. fst e \<noteq> h) ts"

definition setResponseTimeout :: "nat \<Rightarrow> 'c StdioTransportAdapter \<Rightarrow> 'c StdioTransportAdapter" where
  "setResponseTimeout seq t =
     t \<lparr> t_timers := t_timers t @ [(t_nextTimer t, seq)],
         t_nextTimer := t_nextTimer t + 1,
         t_pendingRequests := AList.update seq (t_nextTimer t) (t_pendingRequests t) \<rparr>"

text \<open>The callback of a response timer, run when the armed timer \<open>h\<close> expires.\<close>

definition responseTimeoutFires :: "nat \<Rightarrow> 'c StdioTransportAdapter \<Rightarrow> 'c StdioTransportAdapter" where
  "responseTimeoutFires h t =
     (case map_of (t_timers t) h of
        None \<Rightarrow> t
      | Some seq \<Rightarrow>
          emit (ErrorEvent (TransportError (''Request timeout for sequence '' @ dec_nat seq)
                                           (t_sessionId t)))
               (t \<lparr> t_timers := clearTimeout h (t_timers t),
                    t_pendingRequests := AList.delete seq (t_pendingRequests t) \<rparr>))"

text \<open>
  \<^verbatim>\<open>handleBackendResponse\<close>; the pending map is keyed by numbers, so a declared sequence
  that is not a natural number finds no timer.
\<close>

definition seq_key :: "json option \<Rightarrow> nat option" where
  "seq_key v = (case v of Some (JNum n) \<Rightarrow> (if 0 \<le> n then Some (nat n) else None) | _ \<Rightarrow> None)"

definition handleBackendResponse ::
  "int \<Rightarrow> json option \<Rightarrow> json \<Rightarrow> 'c StdioTransportAdapter \<Rightarrow> 'c StdioTransportAdapter" where
  "handleBackendResponse now seq data t =
     (let t1 =
        (case seq_key seq of
           None \<Rightarrow> t
         | Some k \<Rightarrow>
             (case map_of (t_pendingRequests t) k of
                None \<Rightarrow> t
              | Some h \<Rightarrow>
                  t \<lparr> t_timers := clearTimeout h (t_timers t),
                      t_pendingRequests := AList.delete k (t_pendingRequests t) \<rparr>))
      in emit (MessageInbound \<lparr> in_sessionId = t_sessionId t, in_sequence = seq,
                               in_payload = data, in_timestamp = now \<rparr>) t1)"

text \<open>JavaScript truthiness of a parsed value, and of a property that may be absent.\<close>

fun truthy_json :: "json \<Rightarrow> bool" where
  "truthy_json JNull = False"
| "truthy_json (JBool b) = b"
| "truthy_json (JNum n) = (n \<noteq> 0)"
| "truthy_json (JStr s) = (s \<noteq> [])"
| "truthy_json (JArr xs) = True"
| "truthy_json (JObj ps) = True"

definition get_prop :: "json \<Rightarrow> string \<Rightarrow> json option" where
  "get_prop j k = (case j of JObj ps \<Rightarrow> map_of ps k | _ \<Rightarrow> None)"

definition truthy_prop :: "json \<Rightarrow> string \<Rightarrow> bool" where
  "truthy_prop j k = (case get_prop j k of None \<Rightarrow> False | Some v \<Rightarrow> truthy_json v)"

text \<open>\<^verbatim>\<open>data.sessionId && data.payload\<close>: the payload when both are truthy.\<close>

definition envelope_payload :: "json \<Rightarrow> json option" where
  "envelope_payload data =
     (if truthy_prop data ''sessionId''
      then (case get_prop data ''payload'' of
              None \<Rightarrow> None
            | Some p \<Rightarrow> if truthy_json p then Some p else None)
      else None)"

text \<open>
  The listener of the socket's \<^verbatim>\<open>message\<close> event. \<open>parse\<close> is \<^verbatim>\<open>JSON.parse\<close> on the
  frame's text; reading a property of \<^verbatim>\<open>null\<close> throws inside the \<^verbatim>\<open>try\<close>.
\<close>

definition handleBackendMessage ::
  "(string \<Rightarrow> string + json) \<Rightarrow> int \<Rightarrow> string \<Rightarrow> 'c StdioTransportAdapter \<Rightarrow> 'c StdioTransportAdapter" where
  "handleBackendMessage parse now frame t =
     (case parse frame of
        Inl msg \<Rightarrow>
          emit (ErrorEvent (TransportError (''Failed to parse backend message: '' @ msg)
                                           (t_sessionId t))) t
      | Inr JNull \<Rightarrow>
          emit (ErrorEvent (TransportError
                  (''Failed to parse backend message: Cannot read properties of null'')
                  (t_sessionId t))) t
      | Inr data \<Rightarrow>
          (case envelope_payload data of
             Some p \<Rightarrow> handleBackendResponse now (get_prop data ''sequence'') p t
           | None \<Rightarrow>
               emit (MessageInbound \<lparr> in_sessionId = t_sessionId t, in_sequence = Some (JNum 0),
                                       in_payload = data, in_timestamp = now \<rparr>) t))"

text \<open>
  What the backend does with one envelope: \<open>io_post\<close> is the HTTP exchange of
  \<^verbatim>\<open>sendViaHttp\<close> (\<open>Inl\<close>: the message of the error thrown inside its \<^verbatim>\<open>try\<close>, a failed
  or timed out request, a status that is not ok, a body that is not JSON; \<open>Inr\<close>: the
  parsed response body), \<open>io_wsFails\<close> whether the socket's send callback reports an error,
  \<open>io_now\<close> the clock.
\<close>

record 'p backend_io =
  io_post :: "'p SessionEnvelope \<Rightarrow> string + json"
  io_wsFails :: "'p SessionEnvelope \<Rightarrow> bool"
  io_now :: int

definition sendViaWebSocket ::
  "'p backend_io \<Rightarrow> 'p SessionEnvelope \<Rightarrow> 'c StdioTransportAdapter \<Rightarrow>
     (error + unit) \<times> 'c StdioTransportAdapter" where
  "sendViaWebSocket io envelope t =
     (if websocket t \<noteq> Some OPEN
      then (Inl (TransportError ''WebSocket not connected'' (sessionId envelope)), t)
      else if io_wsFails io envelope
      then (Inl (TransportError ''WebSocket send failed'' (sessionId envelope)), t)
      else (Inr (), t))"

definition sendViaHttp ::
  "'p backend_io \<Rightarrow> 'p SessionEnvelope \<Rightarrow> 'c StdioTransportAdapter \<Rightarrow>
     (error + unit) \<times> 'c StdioTransportAdapter" where
  "sendViaHttp io envelope t =
     (case io_post io envelope of
        Inl msg \<Rightarrow> (Inl (TransportError (''HTTP request failed: '' @ msg) (sessionId envelope)), t)
      | Inr responseData \<Rightarrow>
          (Inr (), handleBackendResponse (io_now io) (Some (JNum (int (sequence envelope))))
                     responseData t))"

definition sendToBackend ::
  "'p backend_io \<Rightarrow> 'p SessionEnvelope \<Rightarrow> 'c StdioTransportAdapter \<Rightarrow>
     (error + unit) \<times> 'c StdioTransportAdapter" where
  "sendToBackend io envelope t =
     (if \<not> backendConnected t
      then (Inl (TransportError ''Backend not connected'' (sessionId envelope)), t)
      else
        (case (if backendType t = WebSocket \<and> websocket t \<noteq> None
               then sendViaWebSocket io envelope t else sendViaHttp io envelope t) of
           (Inl e, t1) \<Rightarrow>
             (Inl (TransportError (''Failed to send to backend: '' @ message_of e) (sessionId envelope)), t1)
         | (Inr u, t1) \<Rightarrow> (Inr (), setResponseTimeout (sequence envelope) t1)))"

text \<open>
  \<^verbatim>\<open>sendToClient\<close>: \<open>io_stringify\<close> is \<^verbatim>\<open>JSON.stringify\<close> and \<open>io_write\<close> the outcome of writing
  a line to stdout (\<open>Some\<close>: the message of the error the write reports).
\<close>

record 'p client_io =
  io_stringify :: "'p \<Rightarrow> string"
  io_write :: "string \<Rightarrow> string option"

definition sendToClient ::
  "'p client_io \<Rightarrow> string \<Rightarrow> 'p \<Rightarrow> 'c StdioTransportAdapter \<Rightarrow>
     (error + unit) \<times> 'c StdioTransportAdapter" where
  "sendToClient io sid data t =
     (if \<not> isStarted t \<or> sid \<noteq> t_sessionId t
      then (Inl (TransportError ''Transport not started or session mismatch'' sid), t)
      else
        let line = io_stringify io data @ [CHR 0x0A] in
        (case io_write io line of
           Some msg \<Rightarrow> (Inl (TransportError (''Failed to send to client: '' @ msg) sid), t)
         | None \<Rightarrow> (Inr (), t \<lparr> stdout := stdout t @ [line] \<rparr>)))"

text \<open>\<^verbatim>\<open>stop\<close>: the timers of the pending map are cleared, the socket is closed.\<close>

definition stop_adapter :: "'c StdioTransportAdapter \<Rightarrow> 'c StdioTransportAdapter" where
  "stop_adapter t =
     (if \<not> isStarted t then t
      else emit TRANSPORT_DISCONNECTED
             (t \<lparr> isStarted := False,
                  t_timers := filter (\<lambda>e. fst e \<notin> snd ` set (t_pendingRequests t)) (t_timers t),
                  t_pendingRequests := [], websocket := None, backendConnected := False \<rparr>))"

subsection \<open>What the framing is expected to emit\<close>






section \<open>The session multiplexer (\<^verbatim>\<open>session/SessionMultiplexerImpl.ts\<close>)\<close>

datatype msg_id = IdStr string | IdNum int

text \<open>
  A message object: \<open>msgRef\<close> is the identity of the object (what \<^verbatim>\<open>===\<close> and
  \<^verbatim>\<open>indexOf\<close> compare), \<open>msgId\<close> its \<^verbatim>\<open>id\<close> property (\<open>None\<close>: \<^verbatim>\<open>undefined\<close>), \<open>content\<close>
  the rest of it.
\<close>

record MCPMessage =
  msgRef :: nat
  msgId :: "msg_id option"
  content :: json

record SessionMultiplexerConfig =
  maxConcurrentSessions :: int
  sessionIdleTimeout :: int
  flowControlWindowSize :: int
  enableFlowControl :: bool

definition DEFAULT_MAX_CONCURRENT_SESSIONS :: int where
  "DEFAULT_MAX_CONCURRENT_SESSIONS = 50"

definition default_config :: SessionMultiplexerConfig where
  "default_config =
     \<lparr> maxConcurrentSessions = DEFAULT_MAX_CONCURRENT_SESSIONS,
       sessionIdleTimeout = DEFAULT_SESSION_IDLE_TIMEOUT,
       flowControlWindowSize = 10,
       enableFlowControl = True \<rparr>"

record PendingRequest =
  pr_timestamp :: int
  pr_timeout :: nat

record ActiveSession =
  s_id :: string
  clientPid :: int
  s_startTime :: int
  lastActivity :: int
  isActive :: bool
  pendingRequests :: "(msg_id \<times> PendingRequest) list"
  messageQueue :: "MCPMessage list"
  lastSequence :: nat
  flowControlWindow :: int
  backpressure :: bool

datatype mux_event =
    SESSION_CREATED string
  | SESSION_DESTROYED string
  | MuxError error

text \<open>
  The two methods of the \<^verbatim>\<open>TransportAdapter\<close> interface that the multiplexer calls, over
  an adapter state \<open>'t\<close>: each returns the error it throws, or unit, and the adapter as the
  call leaves it.
\<close>

record 't TransportAdapter =
  tr_sendToBackend :: "MCPMessage SessionEnvelope \<Rightarrow> 't \<Rightarrow> (error + unit) \<times> 't"
  tr_sendToClient :: "string \<Rightarrow> MCPMessage \<Rightarrow> 't \<Rightarrow> (error + unit) \<times> 't"

text \<open>
  The multiplexer object. The two maps are association lists in insertion order
  (\<open>map_of\<close> is \<^verbatim>\<open>Map.get\<close>, \<open>AList.update\<close> is \<^verbatim>\<open>Map.set\<close>, \<open>AList.delete\<close> is
  \<^verbatim>\<open>Map.delete\<close>). \<open>timers\<close> holds the request timers that are armed, each with the session
  id and message id its callback closes over. \<open>events\<close> is the trace of emitted events;
  \<open>toBackend\<close> and \<open>toClient\<close> record, in order, the calls made to the adapter's
  \<^verbatim>\<open>sendToBackend\<close> and \<^verbatim>\<open>sendToClient\<close>. The clock is read as one value \<open>now\<close> during one
  run of an operation, and an awaited call has completed before the next step runs.
\<close>

record 't SessionMultiplexerImpl =
  config :: SessionMultiplexerConfig
  sessions :: "(string \<times> ActiveSession) list"
  transportAdapter :: "'t option"
  cleanupInterval :: bool
  messageRoutes :: "(msg_id \<times> string) list"
  timers :: "(nat \<times> string \<times> msg_id) list"
  nextTimer :: nat
  events :: "mux_event list"
  toBackend :: "MCPMessage SessionEnvelope list"
  toClient :: "(string \<times> MCPMessage) list"

definition new_multiplexer :: "SessionMultiplexerConfig \<Rightarrow> 't SessionMultiplexerImpl" where
  "new_multiplexer cfg =
     \<lparr> config = cfg, sessions = [], transportAdapter = None, cleanupInterval = True,
       messageRoutes = [], timers = [], nextTimer = 0, events = [], toBackend = [],
       toClient = [] \<rparr>"

definition setTransportAdapter :: "'t \<Rightarrow> 't SessionMultiplexerImpl \<Rightarrow> 't SessionMultiplexerImpl" where
  "setTransportAdapter t st = st \<lparr> transportAdapter := Some t \<rparr>"

definition mux_emit :: "mux_event \<Rightarrow> 't SessionMultiplexerImpl \<Rightarrow> 't SessionMultiplexerImpl" where
  "mux_emit e st = st \<lparr> events := events st @ [e] \<rparr>"

text \<open>A mutation of the session object stored under \<open>sid\<close>.\<close>

definition upd_session ::
  "string \<Rightarrow> (ActiveSession \<Rightarrow> ActiveSession) \<Rightarrow> 't SessionMultiplexerImpl \<Rightarrow> 't SessionMultiplexerImpl" where
  "upd_session sid f st = st \<lparr> sessions := AList.map_entry sid f (sessions st) \<rparr>"

text \<open>
  \<^verbatim>\<open>Utils.generateSessionId\<close>: \<open>tick\<close> is the reading of \<^verbatim>\<open>Date.now()\<close> and \<open>rnd\<close> the text
  \<^verbatim>\<open>Math.random().toString(36).substr(2, 9)\<close>.
\<close>

definition generateSessionId :: "int \<Rightarrow> string \<Rightarrow> string" where
  "generateSessionId tick rnd = ''session-'' @ dec_int tick @ ''-'' @ rnd"

definition createSession ::
  "int \<Rightarrow> int \<Rightarrow> string \<Rightarrow> int \<Rightarrow> 't SessionMultiplexerImpl \<Rightarrow> (error + string) \<times> 't SessionMultiplexerImpl" where
  "createSession cpid tick rnd now st =
     (if int (length (sessions st)) \<ge> maxConcurrentSessions (config st)
      then (Inl (SessionError ''Maximum concurrent sessions exceeded'' []), st)
      else
        let sid = generateSessionId tick rnd;
            session = \<lparr> s_id = sid, clientPid = cpid, s_startTime = now, lastActivity = now,
                        isActive = True, pendingRequests = [], messageQueue = [],
                        lastSequence = 0,
                        flowControlWindow = flowControlWindowSize (config st),
                        backpressure = False \<rparr>
        in (Inr sid,
            mux_emit (SESSION_CREATED sid)
              (st \<lparr> sessions := AList.update sid session (sessions st) \<rparr>)))"

definition destroySession :: "string \<Rightarrow> 't SessionMultiplexerImpl \<Rightarrow> 't SessionMultiplexerImpl" where
  "destroySession sid st =
     (case map_of (sessions st) sid of
        None \<Rightarrow> st
      | Some session \<Rightarrow>
          mux_emit (SESSION_DESTROYED sid)
            (st \<lparr> timers :=
                    filter (\<lambda>e. fst e \<notin> set (map (\<lambda>p. pr_timeout (snd p)) (pendingRequests session)))
                      (timers st),
                  messageRoutes := filter (\<lambda>e. snd e \<noteq> sid) (messageRoutes st),
                  sessions := AList.delete sid (sessions st) \<rparr>))"

definition updateSessionActivity ::
  "string \<Rightarrow> int \<Rightarrow> 't SessionMultiplexerImpl \<Rightarrow> 't SessionMultiplexerImpl" where
  "updateSessionActivity sid now st = upd_session sid (\<lambda>s. s \<lparr> lastActivity := now \<rparr>) st"

definition setupRequestTimeout ::
  "string \<Rightarrow> msg_id \<Rightarrow> int \<Rightarrow> 't SessionMultiplexerImpl \<Rightarrow> 't SessionMultiplexerImpl" where
  "setupRequestTimeout sid mid now st =
     (case map_of (sessions st) sid of
        None \<Rightarrow> st
      | Some session \<Rightarrow>
          (upd_session sid
             (\<lambda>s. s \<lparr> pendingRequests :=
                        AList.update mid \<lparr> pr_timestamp = now, pr_timeout = nextTimer st \<rparr>
                          (pendingRequests s) \<rparr>) st)
            \<lparr> timers := timers st @ [(nextTimer st, sid, mid)],
              nextTimer := nextTimer st + 1 \<rparr>)"

definition clearRequestTimeout ::
  "string \<Rightarrow> msg_id \<Rightarrow> 't SessionMultiplexerImpl \<Rightarrow> 't SessionMultiplexerImpl" where
  "clearRequestTimeout sid mid st =
     (case map_of (sessions st) sid of
        None \<Rightarrow> st
      | Some session \<Rightarrow>
          (case map_of (pendingRequests session) mid of
             None \<Rightarrow> st
           | Some pending \<Rightarrow>
               (upd_session sid
                  (\<lambda>s. s \<lparr> pendingRequests := AList.delete mid (pendingRequests s) \<rparr>) st)
                 \<lparr> timers := clearTimeout (pr_timeout pending) (timers st) \<rparr>))"

definition show_id :: "msg_id \<Rightarrow> string" where
  "show_id i = (case i of IdStr s \<Rightarrow> s | IdNum n \<Rightarrow> dec_int n)"

text \<open>The callback of a request timer, run when the armed timer \<open>h\<close> expires.\<close>

definition requestTimeoutFires :: "nat \<Rightarrow> 't SessionMultiplexerImpl \<Rightarrow> 't SessionMultiplexerImpl" where
  "requestTimeoutFires h st =
     (case map_of (timers st) h of
        None \<Rightarrow> st
      | Some (sid, mid) \<Rightarrow>
          mux_emit (MuxError (SessionError (''Request timeout for message '' @ show_id mid) sid))
            (clearRequestTimeout sid mid (st \<lparr> timers := clearTimeout h (timers st) \<rparr>)))"

text \<open>
  \<^verbatim>\<open>routeToBackend\<close>, in the blocks its comments name. "Track request-response mapping
  if message has ID":
\<close>

definition trackRequest ::
  "string \<Rightarrow> MCPMessage \<Rightarrow> int \<Rightarrow> 't SessionMultiplexerImpl \<Rightarrow> 't SessionMultiplexerImpl" where
  "trackRequest sid msg now st =
     (case msgId msg of
        None \<Rightarrow> st
      | Some i \<Rightarrow>
          setupRequestTimeout sid i now
            (st \<lparr> messageRoutes := AList.update i sid (messageRoutes st) \<rparr>))"

text \<open>"Apply flow control":\<close>

definition consumeCredit :: "string \<Rightarrow> 't SessionMultiplexerImpl \<Rightarrow> 't SessionMultiplexerImpl" where
  "consumeCredit sid st =
     (if enableFlowControl (config st)
      then upd_session sid
             (\<lambda>s. s \<lparr> flowControlWindow := flowControlWindow s - 1,
                      backpressure := (if flowControlWindow s - 1 \<le> 0 then True
                                       else backpressure s) \<rparr>) st
      else st)"

text \<open>"Restore flow control state on error":\<close>

definition restoreCredit :: "string \<Rightarrow> 't SessionMultiplexerImpl \<Rightarrow> 't SessionMultiplexerImpl" where
  "restoreCredit sid st =
     (if enableFlowControl (config st)
      then upd_session sid
             (\<lambda>s. s \<lparr> flowControlWindow := flowControlWindow s + 1,
                      backpressure := (flowControlWindow s + 1 \<le> 0) \<rparr>) st
      else st)"

text \<open>
  "Send to backend": the envelope takes the session's next sequence \<open>n\<close>, the adapter \<open>t\<close>
  is called, and a failure restores the credit and is rethrown as a SessionError.
\<close>

definition sendEnvelope ::
  "'t TransportAdapter \<Rightarrow> string \<Rightarrow> MCPMessage \<Rightarrow> int \<Rightarrow> nat \<Rightarrow> 't \<Rightarrow> 't SessionMultiplexerImpl \<Rightarrow>
     (error + unit) \<times> 't SessionMultiplexerImpl" where
  "sendEnvelope T sid msg now n t st =
     (let st1 = upd_session sid (\<lambda>s. s \<lparr> lastSequence := n \<rparr>) st;
          envelope = \<lparr> sessionId = sid, sequence = n, payload = msg, timestamp = now \<rparr>;
          st2 = st1 \<lparr> transportAdapter := Some (snd (tr_sendToBackend T envelope t)),
                      toBackend := toBackend st1 @ [envelope] \<rparr>
      in (case fst (tr_sendToBackend T envelope t) of
            Inr u \<Rightarrow> (Inr (), st2)
          | Inl e \<Rightarrow>
              (Inl (SessionError (''Failed to route message to backend: '' @ message_of e) sid),
               restoreCredit sid st2)))"

definition routeToBackend ::
  "'t TransportAdapter \<Rightarrow> string \<Rightarrow> MCPMessage \<Rightarrow> int \<Rightarrow> 't SessionMultiplexerImpl \<Rightarrow>
     (error + unit) \<times> 't SessionMultiplexerImpl" where
  "routeToBackend T sid msg now st =
     (case map_of (sessions st) sid of
        None \<Rightarrow> (Inl (SessionError ''Session not found'' sid), st)
      | Some session \<Rightarrow>
          (case transportAdapter st of
             None \<Rightarrow> (Inl (SessionError ''Transport adapter not configured'' sid), st)
           | Some t \<Rightarrow>
               let st1 = updateSessionActivity sid now st in
               if enableFlowControl (config st1) \<and> backpressure session
               then (Inr (), upd_session sid (\<lambda>s. s \<lparr> messageQueue := messageQueue s @ [msg] \<rparr>) st1)
               else sendEnvelope T sid msg now (lastSequence session + 1) t
                      (consumeCredit sid (trackRequest sid msg now st1))))"

text \<open>
  \<^verbatim>\<open>Array.prototype.indexOf\<close> on message objects (identity, \<open>-1\<close> when absent) and
  \<^verbatim>\<open>Array.prototype.slice\<close> with one argument (a negative start counts from the end).
\<close>

fun indexOf :: "MCPMessage list \<Rightarrow> MCPMessage \<Rightarrow> int" where
  "indexOf [] m = -1"
| "indexOf (x # xs) m =
     (if msgRef x = msgRef m then 0
      else (let i = indexOf xs m in if i < 0 then -1 else i + 1))"

definition slice :: "'a list \<Rightarrow> int \<Rightarrow> 'a list" where
  "slice xs i = (if i < 0 then drop (nat (int (length xs) + i)) xs else drop (nat i) xs)"

text \<open>
  The loop of \<^verbatim>\<open>processQueuedMessages\<close> over \<open>messages\<close>, at the elements \<open>todo\<close> still to
  visit. A failed send is reported as an error event and the loop goes on.
\<close>

fun flush ::
  "'t TransportAdapter \<Rightarrow> string \<Rightarrow> int \<Rightarrow> MCPMessage list \<Rightarrow> MCPMessage list \<Rightarrow>
     't SessionMultiplexerImpl \<Rightarrow> 't SessionMultiplexerImpl" where
  "flush T sid now messages [] st = st"
| "flush T sid now messages (m # todo) st =
     (case map_of (sessions st) sid of
        None \<Rightarrow> st
      | Some session \<Rightarrow>
          if backpressure session
          then upd_session sid
                 (\<lambda>s. s \<lparr> messageQueue := slice messages (indexOf messages m) @ messageQueue s \<rparr>) st
          else
            (case routeToBackend T sid m now st of
               (Inr u, st') \<Rightarrow> flush T sid now messages todo st'
             | (Inl e, st') \<Rightarrow>
                 flush T sid now messages todo
                   (mux_emit (MuxError (SessionError
                      (''Failed to process queued message: '' @ message_of e) sid)) st')))"

definition processQueuedMessages ::
  "'t TransportAdapter \<Rightarrow> string \<Rightarrow> int \<Rightarrow> 't SessionMultiplexerImpl \<Rightarrow> 't SessionMultiplexerImpl" where
  "processQueuedMessages T sid now st =
     (case map_of (sessions st) sid of
        None \<Rightarrow> st
      | Some session \<Rightarrow>
          if messageQueue session = [] then st
          else flush T sid now (messageQueue session) (messageQueue session)
                 (upd_session sid (\<lambda>s. s \<lparr> messageQueue := [] \<rparr>) st))"

text \<open>
  \<^verbatim>\<open>routeToClient\<close>, in the blocks its comments name. "Clear request tracking if this is
  a response":
\<close>

definition clearRequestTracking ::
  "string \<Rightarrow> MCPMessage \<Rightarrow> 't SessionMultiplexerImpl \<Rightarrow> 't SessionMultiplexerImpl" where
  "clearRequestTracking sid msg st =
     (case msgId msg of
        None \<Rightarrow> st
      | Some i \<Rightarrow>
          (clearRequestTimeout sid i st) \<lparr> messageRoutes := AList.delete i (messageRoutes st) \<rparr>)"

text \<open>"Update flow control" and "Process queued messages if backpressure is relieved":\<close>

definition replenishCredit ::
  "'t TransportAdapter \<Rightarrow> string \<Rightarrow> int \<Rightarrow> 't SessionMultiplexerImpl \<Rightarrow> 't SessionMultiplexerImpl" where
  "replenishCredit T sid now st =
     (if enableFlowControl (config st)
      then
        (case map_of (sessions st) sid of
           None \<Rightarrow> st
         | Some session \<Rightarrow>
             let st' = upd_session sid (\<lambda>s. s \<lparr> flowControlWindow := flowControlWindow s + 1 \<rparr>) st
             in if backpressure session \<and> flowControlWindow session + 1 > 0
                then processQueuedMessages T sid now
                       (upd_session sid (\<lambda>s. s \<lparr> backpressure := False \<rparr>) st')
                else st')
      else st)"

text \<open>The call of the adapter's \<^verbatim>\<open>sendToClient\<close>; a failure is rethrown as a SessionError.\<close>

definition deliverToClient ::
  "'t TransportAdapter \<Rightarrow> string \<Rightarrow> MCPMessage \<Rightarrow> 't SessionMultiplexerImpl \<Rightarrow>
     (error + unit) \<times> 't SessionMultiplexerImpl" where
  "deliverToClient T sid msg st =
     (case transportAdapter st of
        None \<Rightarrow> (Inl (SessionError ''Transport adapter not configured'' sid), st)
      | Some t \<Rightarrow>
          let st' = st \<lparr> transportAdapter := Some (snd (tr_sendToClient T sid msg t)),
                         toClient := toClient st @ [(sid, msg)] \<rparr>
          in (case fst (tr_sendToClient T sid msg t) of
                Inr u \<Rightarrow> (Inr (), st')
              | Inl e \<Rightarrow>
                  (Inl (SessionError (''Failed to route message to client: '' @ message_of e) sid),
                   st')))"

definition routeToClient ::
  "'t TransportAdapter \<Rightarrow> string \<Rightarrow> MCPMessage \<Rightarrow> int \<Rightarrow> 't SessionMultiplexerImpl \<Rightarrow>
     (error + unit) \<times> 't SessionMultiplexerImpl" where
  "routeToClient T sid msg now st =
     (case map_of (sessions st) sid of
        None \<Rightarrow> (Inl (SessionError ''Session not found'' sid), st)
      | Some session \<Rightarrow>
          (case transportAdapter st of
             None \<Rightarrow> (Inl (SessionError ''Transport adapter not configured'' sid), st)
           | Some t \<Rightarrow>
               deliverToClient T sid msg
                 (replenishCredit T sid now
                    (clearRequestTracking sid msg (updateSessionActivity sid now st)))))"

text \<open>
  The listeners of the adapter's \<^verbatim>\<open>message.inbound\<close> and \<^verbatim>\<open>message.outbound\<close> events.
  \<open>sessionId_opt\<close> is the envelope's \<^verbatim>\<open>sessionId\<close> (\<open>None\<close>: \<^verbatim>\<open>undefined\<close>); an empty
  string is as falsy as an absent one.
\<close>

definition or_unknown :: "string option \<Rightarrow> string" where
  "or_unknown s = (case s of None \<Rightarrow> ''unknown'' | Some v \<Rightarrow> if v = [] then ''unknown'' else v)"

definition handleInboundMessage ::
  "'t TransportAdapter \<Rightarrow> string option \<Rightarrow> MCPMessage \<Rightarrow> int \<Rightarrow> 't SessionMultiplexerImpl \<Rightarrow>
     't SessionMultiplexerImpl" where
  "handleInboundMessage T sessionId_opt pl now st =
     (let targetSessionId =
            (if \<not> truthy sessionId_opt
             then (case msgId pl of
                     None \<Rightarrow> sessionId_opt
                   | Some i \<Rightarrow> map_of (messageRoutes st) i)
             else sessionId_opt)
      in if truthy targetSessionId
         then (case targetSessionId of
                 None \<Rightarrow> st
               | Some target \<Rightarrow>
                   (case routeToClient T target pl now st of
                      (Inr u, st') \<Rightarrow> st'
                    | (Inl e, st') \<Rightarrow>
                        mux_emit (MuxError (SessionError
                          (''Failed to handle inbound message: '' @ message_of e) target)) st'))
         else mux_emit (MuxError (SessionError
                ''Unable to route inbound message - no session found''
                (or_unknown sessionId_opt))) st)"

definition handleOutboundMessage ::
  "'t TransportAdapter \<Rightarrow> string \<Rightarrow> MCPMessage \<Rightarrow> int \<Rightarrow> 't SessionMultiplexerImpl \<Rightarrow>
     't SessionMultiplexerImpl" where
  "handleOutboundMessage T sid pl now st =
     (case routeToBackend T sid pl now st of
        (Inr u, st') \<Rightarrow> st'
      | (Inl e, st') \<Rightarrow>
          mux_emit (MuxError (SessionError
            (''Failed to handle outbound message: '' @ message_of e) sid)) st')"

text \<open>
  The listener that \<^verbatim>\<open>setTransportAdapter\<close> registers for \<^verbatim>\<open>message.inbound\<close>, on an
  envelope that the stdio adapter emitted. The payload is the parsed reply; as a message of
  the declared type \<^verbatim>\<open>MCPMessage\<close> its \<^verbatim>\<open>id\<close>, when present, is a string or a number. \<open>r\<close>
  is the identity of the payload object.
\<close>

definition to_message :: "nat \<Rightarrow> json \<Rightarrow> MCPMessage" where
  "to_message r j =
     \<lparr> msgRef = r,
       msgId = (case get_prop j ''id'' of
                  Some (JNum n) \<Rightarrow> Some (IdNum n)
                | Some (JStr s) \<Rightarrow> Some (IdStr s)
                | _ \<Rightarrow> None),
       content = j \<rparr>"

definition on_message_inbound ::
  "'t TransportAdapter \<Rightarrow> nat \<Rightarrow> InboundEnvelope \<Rightarrow> int \<Rightarrow> 't SessionMultiplexerImpl \<Rightarrow>
     't SessionMultiplexerImpl" where
  "on_message_inbound T r envelope now st =
     handleInboundMessage T (Some (in_sessionId envelope)) (to_message r (in_payload envelope))
       now st"

text \<open>The callback of the cleanup interval, and \<^verbatim>\<open>destroy\<close>.\<close>

definition cleanupIdleSessions :: "int \<Rightarrow> 't SessionMultiplexerImpl \<Rightarrow> 't SessionMultiplexerImpl" where
  "cleanupIdleSessions now st =
     foldl (\<lambda>a e. if now - lastActivity (snd e) > sessionIdleTimeout (config st)
                   then destroySession (fst e) a else a)
       st (sessions st)"

definition destroy :: "'t SessionMultiplexerImpl \<Rightarrow> 't SessionMultiplexerImpl" where
  "destroy st =
     foldl (\<lambda>a k. destroySession k a) (st \<lparr> cleanupInterval := False \<rparr>) (map fst (sessions st))"

text \<open>
  The states the multiplexer built with configuration \<open>cfg\<close> can be in between two runs:
  each rule is one public operation, one listener, or one timer callback, run to its end.
\<close>

inductive reachable ::
  "'t TransportAdapter \<Rightarrow> SessionMultiplexerConfig \<Rightarrow> 't SessionMultiplexerImpl \<Rightarrow> bool"
  for T :: "'t TransportAdapter" and cfg :: SessionMultiplexerConfig where
  r_new: "reachable T cfg (new_multiplexer cfg)"
| r_adapter: "reachable T cfg st \<Longrightarrow> reachable T cfg (setTransportAdapter t st)"
| r_create: "reachable T cfg st \<Longrightarrow> reachable T cfg (snd (createSession cpid tick rnd now st))"
| r_destroy: "reachable T cfg st \<Longrightarrow> reachable T cfg (destroySession sid st)"
| r_toBackend: "reachable T cfg st \<Longrightarrow> reachable T cfg (snd (routeToBackend T sid msg now st))"
| r_toClient: "reachable T cfg st \<Longrightarrow> reachable T cfg (snd (routeToClient T sid msg now st))"
| r_inbound: "reachable T cfg st \<Longrightarrow> reachable T cfg (handleInboundMessage T so msg now st)"
| r_outbound: "reachable T cfg st \<Longrightarrow> reachable T cfg (handleOutboundMessage T sid msg now st)"
| r_timeout: "reachable T cfg st \<Longrightarrow> reachable T cfg (requestTimeoutFires h st)"
| r_cleanup: "reachable T cfg st \<Longrightarrow> reachable T cfg (cleanupIdleSessions now st)"
| r_destroyAll: "reachable T cfg st \<Longrightarrow> reachable T cfg (destroy st)"

text \<open>The stdio adapter as the multiplexer's transport.\<close>

definition stdio_ops ::
  "MCPMessage backend_io \<Rightarrow> MCPMessage client_io \<Rightarrow> ('c StdioTransportAdapter) TransportAdapter" where
  "stdio_ops bio cio = \<lparr> tr_sendToBackend = sendToBackend bio, tr_sendToClient = sendToClient cio \<rparr>"

text \<open>
  The flow-control invariant of one session, and what holds of every session of the
  multiplexer: when the configured window is positive the session's flag and window
  agree and the window is not negative; a backpressured session lives in a multiplexer
  whose flow control is enabled and whose adapter is set.
\<close>

definition flow_ok :: "ActiveSession \<Rightarrow> bool" where
  "flow_ok s = (backpressure s = (flowControlWindow s \<le> 0) \<and> 0 \<le> flowControlWindow s)"

definition session_inv :: "SessionMultiplexerConfig \<Rightarrow> bool \<Rightarrow> ActiveSession \<Rightarrow> bool" where
  "session_inv cfg ad s =
     ((0 < flowControlWindowSize cfg \<longrightarrow> flow_ok s)
      \<and> (backpressure s \<longrightarrow> enableFlowControl cfg \<and> ad))"

definition mux_inv :: "'t SessionMultiplexerImpl \<Rightarrow> bool" where
  "mux_inv st =
     (\<forall>k s. map_of (sessions st) k = Some s \<longrightarrow>
        session_inv (config st) (transportAdapter st \<noteq> None) s)"

text \<open>
  A step that leaves the configuration, the presence of the adapter, and the window and
  flag of every session that remains as they were.
\<close>

definition sub_flow :: "'t SessionMultiplexerImpl \<Rightarrow> 't SessionMultiplexerImpl \<Rightarrow> bool" where
  "sub_flow st st' =
     (config st' = config st
      \<and> (transportAdapter st \<noteq> None \<longrightarrow> transportAdapter st' \<noteq> None)
      \<and> (\<forall>k s'. map_of (sessions st') k = Some s' \<longrightarrow>
            (\<exists>s. map_of (sessions st) k = Some s
                 \<and> flowControlWindow s' = flowControlWindow s
                 \<and> backpressure s' = backpressure s)))"

text \<open>The session object that \<^verbatim>\<open>createSession\<close> stores.\<close>

definition new_session :: "SessionMultiplexerConfig \<Rightarrow> string \<Rightarrow> int \<Rightarrow> int \<Rightarrow> ActiveSession" where
  "new_session cfg sid cpid now =
     \<lparr> s_id = sid, clientPid = cpid, s_startTime = now, lastActivity = now, isActive = True,
       pendingRequests = [], messageQueue = [], lastSequence = 0,
       flowControlWindow = flowControlWindowSize cfg, backpressure = False \<rparr>"

text \<open>Every armed timer of the adapter has a handle below the next one to be issued.\<close>

definition timers_fresh :: "'c StdioTransportAdapter \<Rightarrow> bool" where
  "timers_fresh t = list_all (\<lambda>e. fst e < t_nextTimer t) (t_timers t)"

text \<open>
  A step that leaves the calls made to the backend, the configuration and, for the session
  \<open>sid\<close>, its queue, flag and window as they were.
\<close>

definition queue_kept :: "string \<Rightarrow> 't SessionMultiplexerImpl \<Rightarrow> 't SessionMultiplexerImpl \<Rightarrow> bool" where
  "queue_kept sid st st' =
     (toBackend st' = toBackend st
      \<and> config st' = config st
      \<and> (transportAdapter st \<noteq> None \<longrightarrow> transportAdapter st' \<noteq> None)
      \<and> (\<forall>s. map_of (sessions st) sid = Some s \<longrightarrow>
            (\<exists>s'. map_of (sessions st') sid = Some s'
                  \<and> messageQueue s' = messageQueue s
                  \<and> backpressure s' = backpressure s
                  \<and> flowControlWindow s' = flowControlWindow s)))"


section \<open>Example inputs\<close>

definition cfg_node :: ProcessManagerConfig where
  "cfg_node = \<lparr> command = [''node''], healthCheckUrl = None, restartPolicy = None,
                maxRestartAttempts = None, healthCheckInterval = None, idleTimeout = None \<rparr>"

definition m_run :: MCPProcessManager where
  "m_run = (new_manager 0)
      \<lparr> pm_config := Some (with_defaults cfg_node),
        process := Some \<lparr> child_pid = Some 7, killed = False \<rparr>,
        pm_status := \<lparr> pid = Some 7, status = running, startTime = Some 0, restartCount = 0,
                       lastError = None, isHealthy = False \<rparr> \<rparr>"

text \<open>The supervisor of \<open>m_run\<close> after \<open>n\<close> counted restarts, configured with the cap \<open>cap\<close>.\<close>

definition m_crashes :: "nat \<Rightarrow> int option \<Rightarrow> MCPProcessManager" where
  "m_crashes n cap =
     m_run \<lparr> pm_config := Some (cfg_node \<lparr> restartPolicy := Some always, maxRestartAttempts := cap \<rparr>),
             pm_status := (pm_status m_run) \<lparr> restartCount := n \<rparr> \<rparr>"

definition parse_lock :: "string \<Rightarrow> json option" where
  "parse_lock s =
     (if s = ''{pid:42}'' then Some (JObj [(''pid'', JNum 42)])
      else if s = ''{pid:43}'' then Some (JObj [(''pid'', JNum 43)])
      else None)"

definition kill0_only42 :: "json \<Rightarrow> bool" where
  "kill0_only42 v = (v = JNum 42)"

definition env_ok :: start_env where
  "env_ok = \<lparr> ownPid = 100, env_clock = 5, spawnThrows = None, spawnedPid = Some 101,
              readyThrows = None \<rparr>"







definition T_ok :: "unit TransportAdapter" where
  "T_ok = \<lparr> tr_sendToBackend = (\<lambda>e t. (Inr (), t)), tr_sendToClient = (\<lambda>s m t. (Inr (), t)) \<rparr>"

definition mk_msg :: "nat \<Rightarrow> msg_id option \<Rightarrow> MCPMessage" where
  "mk_msg r i = \<lparr> msgRef = r, msgId = i, content = JNull \<rparr>"

definition cfg1 :: SessionMultiplexerConfig where
  "cfg1 = default_config \<lparr> flowControlWindowSize := 1 \<rparr>"

definition mux1 :: "unit SessionMultiplexerImpl" where
  "mux1 = snd (createSession 1 5 ''abc'' 5 (setTransportAdapter () (new_multiplexer default_config)))"

definition q0 :: "unit SessionMultiplexerImpl" where
  "q0 = snd (createSession 1 5 ''abc'' 5 (setTransportAdapter () (new_multiplexer cfg1)))"

definition q1 :: "unit SessionMultiplexerImpl" where
  "q1 = snd (routeToBackend T_ok ''session-5-abc'' (mk_msg 0 (Some (IdNum 0))) 6 q0)"

definition q1_session :: ActiveSession where
  "q1_session =
     \<lparr> s_id = ''session-5-abc'', clientPid = 1, s_startTime = 5, lastActivity = 6,
       isActive = True,
       pendingRequests = [(IdNum 0, \<lparr> pr_timestamp = 6, pr_timeout = 0 \<rparr>)],
       messageQueue = [], lastSequence = 1, flowControlWindow = 0, backpressure = True \<rparr>"

definition cfg2 :: SessionMultiplexerConfig where
  "cfg2 = default_config \<lparr> maxConcurrentSessions := 2 \<rparr>"

definition two :: "unit SessionMultiplexerImpl" where
  "two = snd (createSession 2 6 ''bbb'' 6 (snd (createSession 1 5 ''aaa'' 5 (new_multiplexer cfg2))))"

definition http_adapter :: "char StdioTransportAdapter" where
  "http_adapter = (new_adapter Http ''s'') \<lparr> isStarted := True, backendConnected := True \<rparr>"

definition io_answers :: "MCPMessage backend_io" where
  "io_answers = \<lparr> io_post = (\<lambda>e. Inr (JObj [(''id'', JNum 7), (''result'', JBool True)])),
                  io_wsFails = (\<lambda>e. False), io_now = 9 \<rparr>"

definition request7 :: "MCPMessage SessionEnvelope" where
  "request7 = \<lparr> sessionId = ''s'', sequence = 1,
                payload = \<lparr> msgRef = 0, msgId = Some (IdNum 7), content = JStr ''ping'' \<rparr>,
                timestamp = 8 \<rparr>"

definition io_stdout :: "MCPMessage client_io" where
  "io_stdout = \<lparr> io_stringify = (\<lambda>m. ''{}''), io_write = (\<lambda>l. None) \<rparr>"

definition wired :: "char StdioTransportAdapter SessionMultiplexerImpl" where
  "wired = snd (createSession 1 5 ''abc'' 5
             (setTransportAdapter http_adapter (new_multiplexer default_config)))"

text \<open>
  A started adapter in WebSocket mode with a session id of its own, a multiplexer that has
  it as transport and one session of its own, and that multiplexer after a request with
  id 0 was routed to the backend. \<open>reply i\<close> is a bare backend reply with id \<open>i\<close> as
  parsed, \<open>parse_reply\<close> the parser on the two frames used, and \<open>stamped k i\<close> the inbound
  envelope with session id \<open>k\<close> that carries the reply.
\<close>

definition ws_adapter :: "char StdioTransportAdapter" where
  "ws_adapter = (new_adapter WebSocket ''session-4-xyz'')
     \<lparr> isStarted := True, backendConnected := True, websocket := Some OPEN \<rparr>"

definition wired_ws :: "char StdioTransportAdapter SessionMultiplexerImpl" where
  "wired_ws = snd (createSession 1 5 ''abc'' 5
                (setTransportAdapter ws_adapter (new_multiplexer default_config)))"

definition sent0 :: "char StdioTransportAdapter SessionMultiplexerImpl" where
  "sent0 = snd (routeToBackend (stdio_ops io_answers io_stdout) ''session-5-abc''
                  (mk_msg 0 (Some (IdNum 0))) 6 wired_ws)"

definition reply :: "int \<Rightarrow> json" where
  "reply i = JObj [(''id'', JNum i), (''result'', JBool True)]"

definition parse_reply :: "string \<Rightarrow> string + json" where
  "parse_reply s =
     (if s = ''{id:0,result:true}'' then Inr (reply 0)
      else if s = ''{id:77,result:true}'' then Inr (reply 77)
      else Inl ''Unexpected token'')"

definition stamped :: "string \<Rightarrow> int \<Rightarrow> InboundEnvelope" where
  "stamped k i = \<lparr> in_sessionId = k, in_sequence = Some (JNum 0), in_payload = reply i,
                   in_timestamp = 9 \<rparr>"

text \<open>
  Two sessions created at one reading of the clock with one draw of the random text
  (\<^verbatim>\<open>Math.random()\<close> returning 0.5, whose text in base 36 is \<^verbatim>\<open>0.i\<close>).
\<close>

definition created_once :: "unit SessionMultiplexerImpl" where
  "created_once = snd (createSession 1 1700000000000 ''i'' 1700000000000
                    (new_multiplexer default_config))"

definition created_twice :: "unit SessionMultiplexerImpl" where
  "created_twice = snd (createSession 2 1700000000000 ''i'' 1700000000000 created_once)"

text \<open>
  The backpressured session of \<open>q1\<close> with two messages queued: in \<open>q2\<close> the same message
  object twice, in \<open>q3\<close> two different ones. \<open>credit\<close> is a message routed to the client.
\<close>

definition q2 :: "unit SessionMultiplexerImpl" where
  "q2 = snd (routeToBackend T_ok ''session-5-abc'' (mk_msg 1 None) 7
          (snd (routeToBackend T_ok ''session-5-abc'' (mk_msg 1 None) 7 q1)))"

definition credit :: "unit SessionMultiplexerImpl \<Rightarrow> unit SessionMultiplexerImpl" where
  "credit st = snd (routeToClient T_ok ''session-5-abc'' (mk_msg 9 None) 8 st)"

definition q3 :: "unit SessionMultiplexerImpl" where
  "q3 = snd (routeToBackend T_ok ''session-5-abc'' (mk_msg 2 None) 7
          (snd (routeToBackend T_ok ''session-5-abc'' (mk_msg 1 None) 7 q1)))"


section \<open>The supervisor: crash handling and the lock file\<close>

lemma restart_allowed:
  "(\<exists>cap. maxRestartAttempts c = Some cap \<and> int n < cap) = (\<not> maxAttempts c \<le> int n)"
  by (cases "maxRestartAttempts c") (auto simp: maxAttempts_def)

lemma sleep_ms_in_range: "k \<le> 21 \<Longrightarrow> sleep_ms (2 ^ k * 1000) = 2 ^ k * 1000"
proof -
  assume "k \<le> 21"
  then have "(2 :: nat) ^ k \<le> 2 ^ 21" by (intro power_increasing) simp_all
  then have "(2 :: nat) ^ k * 1000 \<le> 2097152000" by simp
  moreover have "1 \<le> (2 :: nat) ^ k * 1000" by (simp add: Suc_leI)
  ultimately show ?thesis by (simp add: sleep_ms_def TIMEOUT_MAX_def)
qed

lemma sleep_ms_overflow: "21 < k \<Longrightarrow> sleep_ms (2 ^ k * 1000) = 1"
proof -
  assume "21 < k"
  then have "(2 :: nat) ^ 22 \<le> 2 ^ k" by (intro power_increasing) simp_all
  then have "4194304000 \<le> (2 :: nat) ^ k * 1000" by simp
  then show ?thesis by (simp add: sleep_ms_def TIMEOUT_MAX_def)
qed

lemma on_exit_crashed:
  assumes "status (pm_status m) \<noteq> stopping" and "pm_config m = Some c"
  shows "on_exit code signal m
           = (let r = pm_emit (BACKEND_CRASHED (exit_error code signal))
                        (updateStatus crashed None None m)
              in if restartPolicy c \<noteq> Some never
                    \<and> (\<exists>cap. maxRestartAttempts c = Some cap \<and> int (restartCount (pm_status m)) < cap)
                 then cleanup
                        (r \<lparr> pm_status := (pm_status r) \<lparr> restartCount := restartCount (pm_status m) + 1 \<rparr>,
                             restartSleeps := restartSleeps m
                               @ [sleep_ms (2 ^ (restartCount (pm_status m) + 1) * 1000)] \<rparr>)
                 else cleanup r)"
  using assms
  by (simp add: restart_allowed on_exit_def attemptRestart_def pm_emit_def updateStatus_def
        backoff_ms_def Let_def)

lemma startProcess_succeeds:
  assumes "process m = None" and "pm_config m = Some c"
    and "spawnThrows env = None" and "readyThrows env = None"
  shows "fst (startProcess stringify env m) = Inr ()
       \<and> status (pm_status (snd (startProcess stringify env m))) = running
       \<and> restartCount (pm_status (snd (startProcess stringify env m))) = restartCount (pm_status m)
       \<and> process (snd (startProcess stringify env m))
           = Some \<lparr> child_pid = spawnedPid env, killed = False \<rparr>
       \<and> pm_events (snd (startProcess stringify env m))
           = pm_events m @ [BACKEND_STARTED (spawnedPid env)]"
  using assms
  by (simp add: startProcess_def updateStatus_def createLockFile_def Let_def
        resetIdleTimer_def startHealthCheck_def pm_emit_def)

text \<open>
  C4, on the code. When the child's exit is observed while the status is not \<open>stopping\<close>,
  the status becomes \<open>crashed\<close>, one crash event carrying a ProcessError is emitted and
  the child is forgotten. Exactly when the restart policy is not \<open>never\<close> and the restart
  count is below the configured \<open>maxRestartAttempts\<close> (an absent cap allows none), the
  attempt is counted and a sleep begins, at whose end \<open>restartAfterSleep\<close> runs
  \<open>startProcess\<close>: when spawning and the readiness wait succeed the supervisor is
  \<open>running\<close> again with the new child. The sleep is 2 to the power of the new count
  seconds as long as that count is at most 21 (2 seconds at the first crash); from the
  count 22 on the requested delay is beyond what a timer accepts, and the sleep is 1
  millisecond. In every other case the count and the sleeps stay as they were, no restart
  follows, and the crash is only reported.
\<close>

theorem crash_handling:
  assumes "status (pm_status m) \<noteq> stopping" and "pm_config m = Some c"
  shows "status (pm_status (on_exit code signal m)) = crashed
       \<and> pm_events (on_exit code signal m) = pm_events m @ [BACKEND_CRASHED (exit_error code signal)]
       \<and> process (on_exit code signal m) = None
       \<and> (if restartPolicy c \<noteq> Some never
             \<and> (\<exists>cap. maxRestartAttempts c = Some cap \<and> int (restartCount (pm_status m)) < cap)
          then restartCount (pm_status (on_exit code signal m)) = restartCount (pm_status m) + 1
             \<and> restartSleeps (on_exit code signal m)
                 = restartSleeps m @ [sleep_ms (2 ^ (restartCount (pm_status m) + 1) * 1000)]
             \<and> (restartCount (pm_status m) + 1 \<le> 21 \<longrightarrow>
                  sleep_ms (2 ^ (restartCount (pm_status m) + 1) * 1000)
                    = 2 ^ (restartCount (pm_status m) + 1) * 1000)
             \<and> (21 < restartCount (pm_status m) + 1 \<longrightarrow>
                  sleep_ms (2 ^ (restartCount (pm_status m) + 1) * 1000) = 1)
             \<and> (restartSleeps m = [] \<longrightarrow>
                  restartAfterSleep stringify env (on_exit code signal m)
                    = snd (startProcess stringify env ((on_exit code signal m) \<lparr> restartSleeps := [] \<rparr>))
                  \<and> (spawnThrows env = None \<and> readyThrows env = None \<longrightarrow>
                       status (pm_status (restartAfterSleep stringify env (on_exit code signal m)))
                         = running
                       \<and> process (restartAfterSleep stringify env (on_exit code signal m))
                           = Some \<lparr> child_pid = spawnedPid env, killed = False \<rparr>
                       \<and> restartCount (pm_status (restartAfterSleep stringify env (on_exit code signal m)))
                           = restartCount (pm_status m) + 1
                       \<and> pm_events (restartAfterSleep stringify env (on_exit code signal m))
                           = pm_events m @ [BACKEND_CRASHED (exit_error code signal),
                                            BACKEND_STARTED (spawnedPid env)]))
          else on_exit code signal m
                 = cleanup (pm_emit (BACKEND_CRASHED (exit_error code signal))
                              (updateStatus crashed None None m))
             \<and> restartCount (pm_status (on_exit code signal m)) = restartCount (pm_status m)
             \<and> restartSleeps (on_exit code signal m) = restartSleeps m
             \<and> (restartSleeps m = [] \<longrightarrow>
                  restartAfterSleep stringify env (on_exit code signal m) = on_exit code signal m))"
proof (cases "restartPolicy c \<noteq> Some never
             \<and> (\<exists>cap. maxRestartAttempts c = Some cap \<and> int (restartCount (pm_status m)) < cap)")
  case False
  then have e: "on_exit code signal m
                  = cleanup (pm_emit (BACKEND_CRASHED (exit_error code signal))
                               (updateStatus crashed None None m))"
    unfolding on_exit_crashed [OF assms, of code signal] Let_def
    by (simp only: if_not_P [OF False] if_False)
  have f: "status (pm_status (on_exit code signal m)) = crashed"
    "pm_events (on_exit code signal m) = pm_events m @ [BACKEND_CRASHED (exit_error code signal)]"
    "process (on_exit code signal m) = None"
    "restartCount (pm_status (on_exit code signal m)) = restartCount (pm_status m)"
    "restartSleeps (on_exit code signal m) = restartSleeps m"
    by (simp_all add: e cleanup_def clearTimers_def pm_emit_def updateStatus_def)
  have g: "restartSleeps m = [] \<Longrightarrow>
             restartAfterSleep stringify env (on_exit code signal m) = on_exit code signal m"
    by (simp add: restartAfterSleep_def f)
  show ?thesis unfolding if_not_P [OF False] using e f g by blast
next
  case True
  let ?n = "restartCount (pm_status m) + 1"
  let ?r = "pm_emit (BACKEND_CRASHED (exit_error code signal)) (updateStatus crashed None None m)"
  have e: "on_exit code signal m
             = cleanup (?r \<lparr> pm_status := (pm_status ?r) \<lparr> restartCount := ?n \<rparr>,
                             restartSleeps := restartSleeps m @ [sleep_ms (2 ^ ?n * 1000)] \<rparr>)"
    unfolding on_exit_crashed [OF assms, of code signal] Let_def
    by (simp only: if_P [OF True] if_True)
  have f: "status (pm_status (on_exit code signal m)) = crashed"
    "pm_events (on_exit code signal m) = pm_events m @ [BACKEND_CRASHED (exit_error code signal)]"
    "process (on_exit code signal m) = None"
    "restartCount (pm_status (on_exit code signal m)) = ?n"
    "restartSleeps (on_exit code signal m) = restartSleeps m @ [sleep_ms (2 ^ ?n * 1000)]"
    "pm_config (on_exit code signal m) = Some c"
    using assms(2) by (simp_all add: e cleanup_def clearTimers_def pm_emit_def updateStatus_def)
  have d1: "?n \<le> 21 \<longrightarrow> sleep_ms (2 ^ ?n * 1000) = 2 ^ ?n * 1000"
    using sleep_ms_in_range [of ?n] by blast
  have d2: "21 < ?n \<longrightarrow> sleep_ms (2 ^ ?n * 1000) = 1"
    using sleep_ms_overflow [of ?n] by blast
  let ?w = "(on_exit code signal m) \<lparr> restartSleeps := [] \<rparr>"
  have g: "restartSleeps m = [] \<Longrightarrow>
             restartAfterSleep stringify env (on_exit code signal m)
               = snd (startProcess stringify env ?w)"
    by (simp add: restartAfterSleep_def f)
  have w: "process ?w = None" "pm_config ?w = Some c"
    "pm_events ?w = pm_events m @ [BACKEND_CRASHED (exit_error code signal)]"
    "restartCount (pm_status ?w) = ?n"
    by (simp_all add: f)
  have h: "restartSleeps m = [] \<Longrightarrow> spawnThrows env = None \<and> readyThrows env = None \<Longrightarrow>
             status (pm_status (restartAfterSleep stringify env (on_exit code signal m))) = running
           \<and> process (restartAfterSleep stringify env (on_exit code signal m))
               = Some \<lparr> child_pid = spawnedPid env, killed = False \<rparr>
           \<and> restartCount (pm_status (restartAfterSleep stringify env (on_exit code signal m))) = ?n
           \<and> pm_events (restartAfterSleep stringify env (on_exit code signal m))
               = pm_events m @ [BACKEND_CRASHED (exit_error code signal),
                                BACKEND_STARTED (spawnedPid env)]"
    using startProcess_succeeds [OF w(1) w(2), of env stringify]
    by (simp only: g w) simp
  show ?thesis
    unfolding if_P [OF True] using f(1-5) d1 d2 g h by blast
qed

theorem crash_handling_witness:
  "status (pm_status m_run) \<noteq> stopping
   \<and> pm_config m_run = Some (with_defaults cfg_node)
   \<and> maxRestartAttempts (with_defaults cfg_node) = Some 3
   \<and> status (pm_status (on_exit (Some 1) None m_run)) = crashed
   \<and> pm_events (on_exit (Some 1) None m_run)
       = [BACKEND_CRASHED (ProcessError ''Process exited unexpectedly with code 1, signal null'')]
   \<and> restartCount (pm_status (on_exit (Some 1) None m_run)) = 1
   \<and> restartSleeps (on_exit (Some 1) None m_run) = [2000]
   \<and> status (pm_status (restartAfterSleep (\<lambda>j. ''lock'') env_ok (on_exit (Some 1) None m_run)))
       = running
   \<and> pm_events (restartAfterSleep (\<lambda>j. ''lock'') env_ok (on_exit (Some 1) None m_run))
       = [BACKEND_CRASHED (ProcessError ''Process exited unexpectedly with code 1, signal null''),
          BACKEND_STARTED (Some 101)]
   \<and> restartSleeps (on_exit None None (m_crashes 1 (Some 2))) = [4000]
   \<and> restartCount (pm_status (on_exit None None (m_crashes 1 (Some 2)))) = 2
   \<and> restartSleeps (on_exit None None (m_crashes 2 (Some 2))) = []
   \<and> restartCount (pm_status (on_exit None None (m_crashes 2 (Some 2)))) = 2
   \<and> restartAfterSleep (\<lambda>j. ''lock'') env_ok (on_exit None None (m_crashes 2 (Some 2)))
       = on_exit None None (m_crashes 2 (Some 2))
   \<and> restartSleeps (on_exit None None (m_crashes 0 None)) = []
   \<and> restartSleeps (on_exit None None (m_crashes 20 (Some 30))) = [2097152000]
   \<and> restartSleeps (on_exit None None (m_crashes 21 (Some 30))) = [1]"
proof -
  have h1: "status (pm_status m_run) \<noteq> stopping"
    by (simp add: m_run_def new_manager_def)
  have h2: "pm_config m_run = Some (with_defaults cfg_node)"
    by (simp add: m_run_def)
  have h3: "restartCount (pm_status m_run) = 0" "restartSleeps m_run = []" "pm_events m_run = []"
    by (simp_all add: m_run_def new_manager_def)
  have c3: "maxRestartAttempts (with_defaults cfg_node) = Some 3"
    "restartPolicy (with_defaults cfg_node) = Some on_failure"
    by (simp_all add: with_defaults_def cfg_node_def DEFAULT_MAX_RESTART_ATTEMPTS_def)
  have k1: "status (pm_status (m_crashes n cap)) \<noteq> stopping" for n cap
    by (simp add: m_crashes_def m_run_def new_manager_def)
  have k2: "pm_config (m_crashes n cap)
              = Some (cfg_node \<lparr> restartPolicy := Some always, maxRestartAttempts := cap \<rparr>)" for n cap
    by (simp add: m_crashes_def)
  have k3: "restartCount (pm_status (m_crashes n cap)) = n" "restartSleeps (m_crashes n cap) = []"
    for n cap
    by (simp_all add: m_crashes_def m_run_def new_manager_def)
  have e: "spawnThrows env_ok = None" "readyThrows env_ok = None" "spawnedPid env_ok = Some 101"
    by (simp_all add: env_ok_def)
  have x: "exit_error (Some 1) None
             = ProcessError ''Process exited unexpectedly with code 1, signal null''"
    by (simp add: exit_error_def show_code_def show_signal_def dec_int_def dec_nat.simps digit_def)
  have a: "status (pm_status (on_exit (Some 1) None m_run)) = crashed
     \<and> pm_events (on_exit (Some 1) None m_run)
         = [BACKEND_CRASHED (ProcessError ''Process exited unexpectedly with code 1, signal null'')]
     \<and> restartCount (pm_status (on_exit (Some 1) None m_run)) = 1
     \<and> restartSleeps (on_exit (Some 1) None m_run) = [2000]
     \<and> status (pm_status (restartAfterSleep (\<lambda>j. ''lock'') env_ok (on_exit (Some 1) None m_run)))
         = running
     \<and> pm_events (restartAfterSleep (\<lambda>j. ''lock'') env_ok (on_exit (Some 1) None m_run))
         = [BACKEND_CRASHED (ProcessError ''Process exited unexpectedly with code 1, signal null''),
            BACKEND_STARTED (Some 101)]"
    using crash_handling [OF h1 h2, of "Some 1" None "\<lambda>j. ''lock''" env_ok]
    by (auto simp add: h3 c3 e x sleep_ms_def TIMEOUT_MAX_def)
  have b: "restartSleeps (on_exit None None (m_crashes 1 (Some 2))) = [4000]
     \<and> restartCount (pm_status (on_exit None None (m_crashes 1 (Some 2)))) = 2"
    using crash_handling [OF k1 [of 1 "Some 2"] k2 [of 1 "Some 2"],
        where code = None and signal = None and stringify = "\<lambda>j. ''lock''" and env = env_ok]
    by (auto simp add: k3 cfg_node_def sleep_ms_def TIMEOUT_MAX_def)
  have c: "restartSleeps (on_exit None None (m_crashes 2 (Some 2))) = []
     \<and> restartCount (pm_status (on_exit None None (m_crashes 2 (Some 2)))) = 2
     \<and> restartAfterSleep (\<lambda>j. ''lock'') env_ok (on_exit None None (m_crashes 2 (Some 2)))
         = on_exit None None (m_crashes 2 (Some 2))"
    using crash_handling [OF k1 [of 2 "Some 2"] k2 [of 2 "Some 2"],
        where code = None and signal = None and stringify = "\<lambda>j. ''lock''" and env = env_ok]
    by (auto simp add: k3 cfg_node_def sleep_ms_def TIMEOUT_MAX_def)
  have d: "restartSleeps (on_exit None None (m_crashes 0 None)) = []"
    using crash_handling [OF k1 [of 0 None] k2 [of 0 None],
        where code = None and signal = None and stringify = "\<lambda>j. ''lock''" and env = env_ok]
    by (auto simp add: k3 cfg_node_def sleep_ms_def TIMEOUT_MAX_def)
  have f: "restartSleeps (on_exit None None (m_crashes 20 (Some 30))) = [2097152000]"
    using crash_handling [OF k1 [of 20 "Some 30"] k2 [of 20 "Some 30"],
        where code = None and signal = None and stringify = "\<lambda>j. ''lock''" and env = env_ok]
    by (auto simp add: k3 cfg_node_def sleep_ms_def TIMEOUT_MAX_def)
  have g: "restartSleeps (on_exit None None (m_crashes 21 (Some 30))) = [1]"
    using crash_handling [OF k1 [of 21 "Some 30"] k2 [of 21 "Some 30"],
        where code = None and signal = None and stringify = "\<lambda>j. ''lock''" and env = env_ok]
    by (auto simp add: k3 cfg_node_def sleep_ms_def TIMEOUT_MAX_def)
  show ?thesis
    using h1 h2 c3(1) a b c d f g by blast
qed

lemma lockFile_absent_upd:
  "lockFile m = None \<Longrightarrow> m \<lparr> pm_config := c, lockFile := None \<rparr> = m \<lparr> pm_config := c \<rparr>"
  by (cases m) simp

lemma startProcess_not_conflict:
  "fst (startProcess stringify env m) \<noteq> Inl conflict"
  by (auto simp: startProcess_def conflict_def failStart_def Let_def split: option.splits)

text \<open>
  C6. \<open>start\<close> fails with the conflict error exactly when the lock file exists and
  records a pid whose probe succeeds; then nothing but the stored configuration changes:
  no child is spawned and the lock file is left as it was. In every other case (no file,
  unparseable content, no pid, a dead pid) the call behaves as on a supervisor without a
  lock file: a stale file is removed and \<open>startProcess\<close> runs.
\<close>

theorem start_lock_conflict:
  "(lock_is_live parse kill0 (lockFile m) \<longrightarrow>
      start parse kill0 stringify env c0 m
        = (Inl conflict, m \<lparr> pm_config := Some (with_defaults c0) \<rparr>))
   \<and> (\<not> lock_is_live parse kill0 (lockFile m) \<longrightarrow>
      start parse kill0 stringify env c0 m
        = startProcess stringify env
            (m \<lparr> pm_config := Some (with_defaults c0), lockFile := None \<rparr>)
      \<and> fst (start parse kill0 stringify env c0 m) \<noteq> Inl conflict)"
proof (cases "lock_is_live parse kill0 (lockFile m)")
  case True
  then show ?thesis
    by (auto simp: lock_is_live_def start_def isAnotherInstanceRunning_def
          split: option.splits js_read.splits)
next
  case False
  then have eq: "start parse kill0 stringify env c0 m
        = startProcess stringify env
            (m \<lparr> pm_config := Some (with_defaults c0), lockFile := None \<rparr>)"
    by (auto simp: lock_is_live_def start_def isAnotherInstanceRunning_def lockFile_absent_upd
          split: option.splits js_read.splits)
  show ?thesis using False eq startProcess_not_conflict by simp
qed

theorem start_lock_conflict_witness:
  "lock_is_live parse_lock kill0_only42 (lockFile ((new_manager 0) \<lparr> lockFile := Some ''{pid:42}'' \<rparr>))
   \<and> start parse_lock kill0_only42 (\<lambda>j. ''lock'') env_ok cfg_node
         ((new_manager 0) \<lparr> lockFile := Some ''{pid:42}'' \<rparr>)
       = (Inl conflict,
          (new_manager 0) \<lparr> pm_config := Some (with_defaults cfg_node), lockFile := Some ''{pid:42}'' \<rparr>)
   \<and> \<not> lock_is_live parse_lock kill0_only42 (lockFile ((new_manager 0) \<lparr> lockFile := Some ''{pid:43}'' \<rparr>))
   \<and> fst (start parse_lock kill0_only42 (\<lambda>j. ''lock'') env_ok cfg_node
         ((new_manager 0) \<lparr> lockFile := Some ''{pid:43}'' \<rparr>)) = Inr ()
   \<and> \<not> lock_is_live parse_lock kill0_only42 (lockFile ((new_manager 0) \<lparr> lockFile := Some ''garbage'' \<rparr>))
   \<and> lockFile (snd (start parse_lock kill0_only42 (\<lambda>j. ''lock'') env_ok cfg_node
         ((new_manager 0) \<lparr> lockFile := Some ''garbage'' \<rparr>))) = Some ''lock''"
proof -
  let ?live = "(new_manager 0) \<lparr> lockFile := Some ''{pid:42}'' \<rparr>"
  let ?stale = "(new_manager 0) \<lparr> lockFile := Some ''{pid:43}'' \<rparr>"
  let ?bad = "(new_manager 0) \<lparr> lockFile := Some ''garbage'' \<rparr>"
  let ?fresh = "(new_manager 0) \<lparr> pm_config := Some (with_defaults cfg_node) \<rparr>"
  have a: "lock_is_live parse_lock kill0_only42 (lockFile ?live)"
    by (simp add: lock_is_live_def parse_lock_def kill0_only42_def)
  have b: "\<not> lock_is_live parse_lock kill0_only42 (lockFile ?stale)"
    by (simp add: lock_is_live_def parse_lock_def kill0_only42_def)
  have c: "\<not> lock_is_live parse_lock kill0_only42 (lockFile ?bad)"
    by (simp add: lock_is_live_def parse_lock_def kill0_only42_def)
  have sp: "startProcess (\<lambda>j. ''lock'') env_ok (?fresh \<lparr> lockFile := None \<rparr>)
       = startProcess (\<lambda>j. ''lock'') env_ok ?fresh"
    by (simp add: new_manager_def)
  have r: "fst (startProcess (\<lambda>j. ''lock'') env_ok ?fresh) = Inr ()"
     "lockFile (snd (startProcess (\<lambda>j. ''lock'') env_ok ?fresh)) = Some ''lock''"
    by (simp_all add: startProcess_def new_manager_def updateStatus_def createLockFile_def
          env_ok_def Let_def resetIdleTimer_def startHealthCheck_def pm_emit_def)
  show ?thesis
    using a b c
      start_lock_conflict [of parse_lock kill0_only42 ?live "\<lambda>j. ''lock''" env_ok cfg_node]
      start_lock_conflict [of parse_lock kill0_only42 ?stale "\<lambda>j. ''lock''" env_ok cfg_node]
      start_lock_conflict [of parse_lock kill0_only42 ?bad "\<lambda>j. ''lock''" env_ok cfg_node]
    by (simp add: sp r)
qed

section \<open>The transport adapter: framing of stdin\<close>

lemma js_split_nonempty [simp]: "js_split d s \<noteq> []"
  by (induction s) (auto split: list.splits)
























section \<open>The multiplexer: the flow-control invariant\<close>

lemma sub_flow_refl: "sub_flow st st"
  by (simp add: sub_flow_def)

lemma sub_flow_trans: "sub_flow a b \<Longrightarrow> sub_flow b c \<Longrightarrow> sub_flow a c"
  unfolding sub_flow_def by (metis (no_types, lifting))

lemma mux_inv_sub_flow: "mux_inv st \<Longrightarrow> sub_flow st st' \<Longrightarrow> mux_inv st'"
  unfolding mux_inv_def sub_flow_def session_inv_def flow_ok_def by (metis (no_types, lifting))

lemma map_entry_absent: "map_of xs k = None \<Longrightarrow> AList.map_entry k f xs = xs"
  by (induction xs) auto

lemma map_entry_comp:
  "AList.map_entry k g (AList.map_entry k f xs) = AList.map_entry k (\<lambda>v. g (f v)) xs"
  by (induction xs) auto

lemma upd_session_fields:
  "sessions (upd_session sid f st) = AList.map_entry sid f (sessions st)"
  "config (upd_session sid f st) = config st"
  "transportAdapter (upd_session sid f st) = transportAdapter st"
  "messageRoutes (upd_session sid f st) = messageRoutes st"
  "timers (upd_session sid f st) = timers st"
  "nextTimer (upd_session sid f st) = nextTimer st"
  "events (upd_session sid f st) = events st"
  "toBackend (upd_session sid f st) = toBackend st"
  "toClient (upd_session sid f st) = toClient st"
  "cleanupInterval (upd_session sid f st) = cleanupInterval st"
  by (simp_all add: upd_session_def)

lemma upd_session_comp:
  "upd_session sid g (upd_session sid f st) = upd_session sid (\<lambda>s. g (f s)) st"
  by (simp add: upd_session_def map_entry_comp)

lemma setupRequestTimeout_fields:
  "sessions (setupRequestTimeout sid i now st)
     = AList.map_entry sid
         (\<lambda>s. s \<lparr> pendingRequests :=
                  AList.update i \<lparr> pr_timestamp = now, pr_timeout = nextTimer st \<rparr> (pendingRequests s) \<rparr>)
         (sessions st)"
  "config (setupRequestTimeout sid i now st) = config st"
  "transportAdapter (setupRequestTimeout sid i now st) = transportAdapter st"
  "messageRoutes (setupRequestTimeout sid i now st) = messageRoutes st"
  "toBackend (setupRequestTimeout sid i now st) = toBackend st"
  "toClient (setupRequestTimeout sid i now st) = toClient st"
  "events (setupRequestTimeout sid i now st) = events st"
  by (simp_all add: setupRequestTimeout_def upd_session_fields map_entry_absent split: option.splits)

lemmas mux_simps = upd_session_fields setupRequestTimeout_fields map_of_map_entry

lemma sub_flow_upd_session:
  "(\<And>s. flowControlWindow (f s) = flowControlWindow s \<and> backpressure (f s) = backpressure s)
     \<Longrightarrow> sub_flow st (upd_session sid f st)"
  by (auto simp: sub_flow_def mux_simps split: option.splits if_splits)

lemma sub_flow_emit: "sub_flow st (mux_emit e st)"
  by (simp add: sub_flow_def mux_emit_def)

lemma sub_flow_clearRequestTimeout: "sub_flow st (clearRequestTimeout sid i st)"
  by (auto simp: sub_flow_def clearRequestTimeout_def mux_simps split: option.splits if_splits)

lemma sub_flow_setupRequestTimeout: "sub_flow st (setupRequestTimeout sid i now st)"
  by (auto simp: sub_flow_def mux_simps split: option.splits if_splits)

lemma sub_flow_destroySession: "sub_flow st (destroySession sid st)"
  by (auto simp: sub_flow_def destroySession_def mux_emit_def delete_conv' split: option.splits if_splits)

lemma sub_flow_requestTimeoutFires: "sub_flow st (requestTimeoutFires h st)"
proof (cases "map_of (timers st) h")
  case None
  then show ?thesis by (simp add: requestTimeoutFires_def sub_flow_refl)
next
  case (Some p)
  obtain sid mid where p: "p = (sid, mid)" by (cases p)
  have a: "sub_flow st (st \<lparr> timers := clearTimeout h (timers st) \<rparr>)"
    by (simp add: sub_flow_def)
  show ?thesis
    using Some p
    by (simp add: requestTimeoutFires_def)
       (blast intro: sub_flow_trans a sub_flow_clearRequestTimeout sub_flow_emit)
qed

lemma sub_flow_foldl:
  "(\<And>a x. sub_flow a (f a x)) \<Longrightarrow> sub_flow st (foldl f st xs)"
proof (induction xs arbitrary: st)
  case Nil
  then show ?case by (simp add: sub_flow_refl)
next
  case (Cons x xs)
  then show ?case by (metis foldl_Cons sub_flow_trans)
qed

lemma sub_flow_cleanupIdleSessions: "sub_flow st (cleanupIdleSessions now st)"
  unfolding cleanupIdleSessions_def
  by (rule sub_flow_foldl) (simp add: sub_flow_refl sub_flow_destroySession)

lemma sub_flow_destroy: "sub_flow st (destroy st)"
proof -
  have a: "sub_flow st (st \<lparr> cleanupInterval := False \<rparr>)"
    by (simp add: sub_flow_def)
  have b: "sub_flow (st \<lparr> cleanupInterval := False \<rparr>) (destroy st)"
    unfolding destroy_def by (rule sub_flow_foldl) (simp add: sub_flow_destroySession)
  show ?thesis using a b by (rule sub_flow_trans)
qed

lemma sub_flow_updateSessionActivity: "sub_flow st (updateSessionActivity sid now st)"
  unfolding updateSessionActivity_def by (rule sub_flow_upd_session) simp

lemma sub_flow_trackRequest: "sub_flow st (trackRequest sid msg now st)"
proof (cases "msgId msg")
  case None
  then show ?thesis by (simp add: trackRequest_def sub_flow_refl)
next
  case (Some i)
  have "sub_flow st (st \<lparr> messageRoutes := AList.update i sid (messageRoutes st) \<rparr>)"
    by (simp add: sub_flow_def)
  then show ?thesis
    using Some by (simp add: trackRequest_def) (blast intro: sub_flow_trans sub_flow_setupRequestTimeout)
qed

lemma sub_flow_clearRequestTracking: "sub_flow st (clearRequestTracking sid msg st)"
proof (cases "msgId msg")
  case None
  then show ?thesis by (simp add: clearRequestTracking_def sub_flow_refl)
next
  case (Some i)
  have "sub_flow (clearRequestTimeout sid i st)
          ((clearRequestTimeout sid i st) \<lparr> messageRoutes := AList.delete i (messageRoutes st) \<rparr>)"
    by (simp add: sub_flow_def)
  then show ?thesis
    using Some sub_flow_clearRequestTimeout [of st sid i]
    by (simp add: clearRequestTracking_def) (blast intro: sub_flow_trans)
qed

lemma mux_inv_upd_session:
  assumes "mux_inv st"
    and "\<And>s. map_of (sessions st) sid = Some s \<Longrightarrow>
           session_inv (config st) (transportAdapter st \<noteq> None) (f s)"
  shows "mux_inv (upd_session sid f st)"
  using assms
  by (auto simp: mux_inv_def mux_simps split: option.splits if_splits)

lemma mux_inv_consumeCredit:
  assumes "mux_inv st" and "transportAdapter st \<noteq> None"
    and "\<And>s. map_of (sessions st) sid = Some s \<Longrightarrow> enableFlowControl (config st) \<Longrightarrow> \<not> backpressure s"
  shows "mux_inv (consumeCredit sid st)"
proof (cases "enableFlowControl (config st)")
  case False
  then show ?thesis using assms(1) by (simp add: consumeCredit_def)
next
  case True
  have "mux_inv (upd_session sid
             (\<lambda>s. s \<lparr> flowControlWindow := flowControlWindow s - 1,
                      backpressure := (if flowControlWindow s - 1 \<le> 0 then True
                                       else backpressure s) \<rparr>) st)"
  proof (rule mux_inv_upd_session [OF assms(1)])
    fix s assume s: "map_of (sessions st) sid = Some s"
    have "session_inv (config st) (transportAdapter st \<noteq> None) s"
      using assms(1) s by (simp add: mux_inv_def)
    then show "session_inv (config st) (transportAdapter st \<noteq> None)
                 (s \<lparr> flowControlWindow := flowControlWindow s - 1,
                      backpressure := (if flowControlWindow s - 1 \<le> 0 then True
                                       else backpressure s) \<rparr>)"
      using assms(2) assms(3) [OF s True] True
      by (auto simp: session_inv_def flow_ok_def)
  qed
  then show ?thesis using True by (simp add: consumeCredit_def)
qed

lemma mux_inv_restoreCredit:
  assumes "mux_inv st" and "transportAdapter st \<noteq> None"
  shows "mux_inv (restoreCredit sid st)"
proof (cases "enableFlowControl (config st)")
  case False
  then show ?thesis using assms(1) by (simp add: restoreCredit_def)
next
  case True
  have "mux_inv (upd_session sid
             (\<lambda>s. s \<lparr> flowControlWindow := flowControlWindow s + 1,
                      backpressure := (flowControlWindow s + 1 \<le> 0) \<rparr>) st)"
  proof (rule mux_inv_upd_session [OF assms(1)])
    fix s assume s: "map_of (sessions st) sid = Some s"
    have "session_inv (config st) (transportAdapter st \<noteq> None) s"
      using assms(1) s by (simp add: mux_inv_def)
    then show "session_inv (config st) (transportAdapter st \<noteq> None)
                 (s \<lparr> flowControlWindow := flowControlWindow s + 1,
                      backpressure := (flowControlWindow s + 1 \<le> 0) \<rparr>)"
      using assms(2) True by (auto simp: session_inv_def flow_ok_def)
  qed
  then show ?thesis using True by (simp add: restoreCredit_def)
qed

lemma mux_inv_sendEnvelope:
  assumes "mux_inv st"
  shows "mux_inv (snd (sendEnvelope T sid msg now n t st))"
proof -
  let ?env = "\<lparr> sessionId = sid, sequence = n, payload = msg, timestamp = now \<rparr>"
  let ?st1 = "upd_session sid (\<lambda>s. s \<lparr> lastSequence := n \<rparr>) st"
  let ?st2 = "?st1 \<lparr> transportAdapter := Some (snd (tr_sendToBackend T ?env t)),
                     toBackend := toBackend ?st1 @ [?env] \<rparr>"
  have "sub_flow st ?st1" by (rule sub_flow_upd_session) simp
  moreover have "sub_flow ?st1 ?st2" by (simp add: sub_flow_def)
  ultimately have i2: "mux_inv ?st2"
    using assms by (blast intro: mux_inv_sub_flow)
  have a2: "transportAdapter ?st2 \<noteq> None" by simp
  have i3: "mux_inv (restoreCredit sid ?st2)"
    using i2 a2 by (rule mux_inv_restoreCredit)
  show ?thesis
    using i2 i3 by (simp add: sendEnvelope_def Let_def split: sum.splits)
qed

lemma mux_inv_routeToBackend:
  assumes "mux_inv st"
  shows "mux_inv (snd (routeToBackend T sid msg now st))"
proof (cases "map_of (sessions st) sid")
  case None
  then show ?thesis using assms by (simp add: routeToBackend_def)
next
  case (Some s0)
  show ?thesis
  proof (cases "transportAdapter st")
    case None
    then show ?thesis using assms Some by (simp add: routeToBackend_def)
  next
    case (Some t)
    let ?st1 = "updateSessionActivity sid now st"
    let ?st2 = "trackRequest sid msg now ?st1"
    have sf1: "sub_flow st ?st1" by (rule sub_flow_updateSessionActivity)
    have sf2: "sub_flow st ?st2" using sf1 sub_flow_trackRequest by (rule sub_flow_trans)
    have i1: "mux_inv ?st1" using assms sf1 by (rule mux_inv_sub_flow)
    have i2: "mux_inv ?st2" using assms sf2 by (rule mux_inv_sub_flow)
    have c1: "config ?st1 = config st" using sf1 by (simp add: sub_flow_def)
    show ?thesis
    proof (cases "enableFlowControl (config st) \<and> backpressure s0")
      case True
      have "sub_flow ?st1 (upd_session sid (\<lambda>s. s \<lparr> messageQueue := messageQueue s @ [msg] \<rparr>) ?st1)"
        by (rule sub_flow_upd_session) simp
      then have "mux_inv (upd_session sid (\<lambda>s. s \<lparr> messageQueue := messageQueue s @ [msg] \<rparr>) ?st1)"
        using i1 by (blast intro: mux_inv_sub_flow)
      then show ?thesis
        using \<open>map_of (sessions st) sid = Some s0\<close> Some True c1
        by (simp add: routeToBackend_def Let_def)
    next
      case False
      have a2: "transportAdapter ?st2 \<noteq> None"
        using sf2 Some by (simp add: sub_flow_def)
      have c2: "config ?st2 = config st" using sf2 by (simp add: sub_flow_def)
      have nb: "\<And>s. map_of (sessions ?st2) sid = Some s \<Longrightarrow> enableFlowControl (config ?st2)
                  \<Longrightarrow> \<not> backpressure s"
        using sf2 \<open>map_of (sessions st) sid = Some s0\<close> False c2
        unfolding sub_flow_def by (metis option.inject)
      have i3: "mux_inv (consumeCredit sid ?st2)"
        using i2 a2 nb by (rule mux_inv_consumeCredit)
      have "mux_inv (snd (sendEnvelope T sid msg now (lastSequence s0 + 1) t (consumeCredit sid ?st2)))"
        using i3 by (rule mux_inv_sendEnvelope)
      then show ?thesis
        using \<open>map_of (sessions st) sid = Some s0\<close> Some False c1
        by (auto simp add: routeToBackend_def Let_def)
    qed
  qed
qed

lemma mux_inv_flush:
  "mux_inv st \<Longrightarrow> mux_inv (flush T sid now messages todo st)"
proof (induction todo arbitrary: st)
  case Nil
  then show ?case by simp
next
  case (Cons m todo)
  show ?case
  proof (cases "map_of (sessions st) sid")
    case None
    then show ?thesis using Cons.prems by simp
  next
    case (Some session)
    show ?thesis
    proof (cases "backpressure session")
      case True
      have "sub_flow st (upd_session sid
                 (\<lambda>s. s \<lparr> messageQueue := slice messages (indexOf messages m) @ messageQueue s \<rparr>) st)"
        by (rule sub_flow_upd_session) simp
      then show ?thesis using Some True Cons.prems by (simp add: mux_inv_sub_flow)
    next
      case False
      obtain r st' where rt: "routeToBackend T sid m now st = (r, st')"
        by (cases "routeToBackend T sid m now st")
      have i: "mux_inv st'"
        using mux_inv_routeToBackend [OF Cons.prems, of T sid m now] rt by simp
      show ?thesis
      proof (cases r)
        case (Inl e)
        have "mux_inv (mux_emit (MuxError (SessionError
                      (''Failed to process queued message: '' @ message_of e) sid)) st')"
          using i sub_flow_emit by (rule mux_inv_sub_flow)
        then show ?thesis using Some False rt Inl Cons.IH by simp
      next
        case (Inr u)
        then show ?thesis using Some False rt i Cons.IH by simp
      qed
    qed
  qed
qed

lemma mux_inv_processQueuedMessages:
  "mux_inv st \<Longrightarrow> mux_inv (processQueuedMessages T sid now st)"
proof -
  assume i: "mux_inv st"
  have "mux_inv (upd_session sid (\<lambda>s. s \<lparr> messageQueue := [] \<rparr>) st)"
    using i by (rule mux_inv_sub_flow) (rule sub_flow_upd_session, simp)
  then show ?thesis
    using i by (simp add: processQueuedMessages_def mux_inv_flush split: option.splits)
qed

lemma mux_inv_replenishCredit:
  assumes "mux_inv st"
  shows "mux_inv (replenishCredit T sid now st)"
proof (cases "enableFlowControl (config st)")
  case False
  then show ?thesis using assms by (simp add: replenishCredit_def)
next
  case efc: True
  show ?thesis
  proof (cases "map_of (sessions st) sid")
    case None
    then show ?thesis using assms efc by (simp add: replenishCredit_def)
  next
    case (Some s0)
    let ?inc = "\<lambda>s. s \<lparr> flowControlWindow := flowControlWindow s + 1 \<rparr>"
    have q: "session_inv (config st) (transportAdapter st \<noteq> None) s0"
      using assms Some by (simp add: mux_inv_def)
    show ?thesis
    proof (cases "backpressure s0 \<and> flowControlWindow s0 + 1 > 0")
      case True
      have "mux_inv (upd_session sid (\<lambda>s. (?inc s) \<lparr> backpressure := False \<rparr>) st)"
      proof (rule mux_inv_upd_session [OF assms])
        fix s assume "map_of (sessions st) sid = Some s"
        then have "s = s0" using Some by simp
        then show "session_inv (config st) (transportAdapter st \<noteq> None)
                     ((?inc s) \<lparr> backpressure := False \<rparr>)"
          using q True by (auto simp: session_inv_def flow_ok_def)
      qed
      then have "mux_inv (upd_session sid (\<lambda>s. s \<lparr> backpressure := False \<rparr>) (upd_session sid ?inc st))"
        by (simp only: upd_session_comp)
      then have "mux_inv (processQueuedMessages T sid now
                   (upd_session sid (\<lambda>s. s \<lparr> backpressure := False \<rparr>) (upd_session sid ?inc st)))"
        by (rule mux_inv_processQueuedMessages)
      then show ?thesis using efc Some True by (simp add: replenishCredit_def Let_def)
    next
      case False
      have "mux_inv (upd_session sid ?inc st)"
      proof (rule mux_inv_upd_session [OF assms])
        fix s assume "map_of (sessions st) sid = Some s"
        then have "s = s0" using Some by simp
        then show "session_inv (config st) (transportAdapter st \<noteq> None) (?inc s)"
          using q False by (auto simp: session_inv_def flow_ok_def)
      qed
      then show ?thesis using efc Some False by (auto simp add: replenishCredit_def Let_def)
    qed
  qed
qed

lemma sub_flow_deliverToClient: "sub_flow st (snd (deliverToClient T sid msg st))"
  by (simp add: deliverToClient_def Let_def sub_flow_def split: option.splits sum.splits)

lemma mux_inv_routeToClient:
  assumes "mux_inv st"
  shows "mux_inv (snd (routeToClient T sid msg now st))"
proof (cases "map_of (sessions st) sid = None \<or> transportAdapter st = None")
  case True
  then show ?thesis using assms by (auto simp: routeToClient_def split: option.splits)
next
  case False
  let ?st2 = "clearRequestTracking sid msg (updateSessionActivity sid now st)"
  have "sub_flow st ?st2"
    using sub_flow_updateSessionActivity sub_flow_clearRequestTracking by (rule sub_flow_trans)
  then have "mux_inv ?st2" using assms by (blast intro: mux_inv_sub_flow)
  then have "mux_inv (replenishCredit T sid now ?st2)" by (rule mux_inv_replenishCredit)
  then have "mux_inv (snd (deliverToClient T sid msg (replenishCredit T sid now ?st2)))"
    using sub_flow_deliverToClient by (rule mux_inv_sub_flow)
  then show ?thesis using False by (auto simp: routeToClient_def split: option.splits)
qed

lemma result_cases:
  "P (snd p) \<Longrightarrow> (\<And>e. P (mux_emit (F e) (snd p)))
     \<Longrightarrow> P (case p of (Inl e, st') \<Rightarrow> mux_emit (F e) st' | (Inr u, st') \<Rightarrow> st')"
  by (cases p; cases "fst p") auto

lemma mux_inv_handleInboundMessage:
  assumes "mux_inv st"
  shows "mux_inv (handleInboundMessage T so pl now st)"
proof -
  have e: "\<And>x. mux_inv (mux_emit x st)"
    using assms sub_flow_emit by (rule mux_inv_sub_flow)
  have r: "\<And>tg F. mux_inv (case routeToClient T tg pl now st of
                      (Inl e, st') \<Rightarrow> mux_emit (F e) st' | (Inr u, st') \<Rightarrow> st')"
  proof (rule result_cases)
    fix tg :: string and F :: "error \<Rightarrow> mux_event" and e
    show "mux_inv (snd (routeToClient T tg pl now st))"
      using assms by (rule mux_inv_routeToClient)
    then show "mux_inv (mux_emit (F e) (snd (routeToClient T tg pl now st)))"
      using sub_flow_emit by (rule mux_inv_sub_flow)
  qed
  show ?thesis
    unfolding handleInboundMessage_def Let_def
    using assms e r by (simp split: option.splits)
qed

lemma mux_inv_handleOutboundMessage:
  assumes "mux_inv st"
  shows "mux_inv (handleOutboundMessage T sid pl now st)"
  unfolding handleOutboundMessage_def
proof (rule result_cases)
  fix e
  show "mux_inv (snd (routeToBackend T sid pl now st))"
    using assms by (rule mux_inv_routeToBackend)
  then show "mux_inv (mux_emit (MuxError (SessionError
            (''Failed to handle outbound message: '' @ message_of e) sid))
          (snd (routeToBackend T sid pl now st)))"
    using sub_flow_emit by (rule mux_inv_sub_flow)
qed

lemma mux_inv_createSession:
  assumes "mux_inv st"
  shows "mux_inv (snd (createSession cpid tick rnd now st))"
  using assms
  by (auto simp: createSession_def Let_def mux_emit_def mux_inv_def update_conv'
        session_inv_def flow_ok_def)

lemma mux_inv_new: "mux_inv (new_multiplexer cfg)"
  by (simp add: mux_inv_def new_multiplexer_def)

lemma mux_inv_setTransportAdapter: "mux_inv st \<Longrightarrow> mux_inv (setTransportAdapter t st)"
  by (erule mux_inv_sub_flow) (simp add: sub_flow_def setTransportAdapter_def)

lemma reachable_mux_inv: "reachable T cfg st \<Longrightarrow> mux_inv st"
proof (induction rule: reachable.induct)
  case r_new
  show ?case by (rule mux_inv_new)
next
  case (r_adapter st t)
  then show ?case by (simp add: mux_inv_setTransportAdapter)
next
  case (r_create st cpid tick rnd now)
  then show ?case by (simp add: mux_inv_createSession)
next
  case (r_destroy st sid)
  then show ?case using sub_flow_destroySession by (blast intro: mux_inv_sub_flow)
next
  case (r_toBackend st sid msg now)
  then show ?case by (simp add: mux_inv_routeToBackend)
next
  case (r_toClient st sid msg now)
  then show ?case by (simp add: mux_inv_routeToClient)
next
  case (r_inbound st so msg now)
  then show ?case by (simp add: mux_inv_handleInboundMessage)
next
  case (r_outbound st sid msg now)
  then show ?case by (simp add: mux_inv_handleOutboundMessage)
next
  case (r_timeout st h)
  then show ?case using sub_flow_requestTimeoutFires by (blast intro: mux_inv_sub_flow)
next
  case (r_cleanup st now)
  then show ?case using sub_flow_cleanupIdleSessions by (blast intro: mux_inv_sub_flow)
next
  case (r_destroyAll st)
  then show ?case using sub_flow_destroy by (blast intro: mux_inv_sub_flow)
qed

lemma config_consumeCredit: "config (consumeCredit sid st) = config st"
  by (simp add: consumeCredit_def upd_session_fields)

lemma config_restoreCredit: "config (restoreCredit sid st) = config st"
  by (simp add: restoreCredit_def upd_session_fields)

lemma config_sub_flow: "sub_flow st st' \<Longrightarrow> config st' = config st"
  by (simp add: sub_flow_def)

lemma config_sendEnvelope: "config (snd (sendEnvelope T sid msg now n t st)) = config st"
  by (simp add: sendEnvelope_def Let_def config_restoreCredit upd_session_fields split: sum.splits)

lemma config_routeToBackend: "config (snd (routeToBackend T sid msg now st)) = config st"
  by (simp add: routeToBackend_def Let_def config_sendEnvelope config_consumeCredit
        config_sub_flow [OF sub_flow_trackRequest] config_sub_flow [OF sub_flow_updateSessionActivity]
        upd_session_fields split: option.splits)

lemma config_flush: "config (flush T sid now messages todo st) = config st"
proof (induction todo arbitrary: st)
  case Nil
  show ?case by simp
next
  case (Cons m todo)
  obtain r st' where rt: "routeToBackend T sid m now st = (r, st')"
    by (cases "routeToBackend T sid m now st")
  have c: "config st' = config st" using config_routeToBackend [of T sid m now st] rt by simp
  show ?case
    using rt c Cons.IH
    by (cases r) (simp_all add: upd_session_fields mux_emit_def split: option.splits)
qed

lemma config_processQueuedMessages: "config (processQueuedMessages T sid now st) = config st"
  by (simp add: processQueuedMessages_def config_flush upd_session_fields split: option.splits)

lemma config_replenishCredit: "config (replenishCredit T sid now st) = config st"
  by (simp add: replenishCredit_def Let_def config_processQueuedMessages upd_session_fields
      split: option.splits)

lemma config_routeToClient: "config (snd (routeToClient T sid msg now st)) = config st"
  by (simp add: routeToClient_def config_sub_flow [OF sub_flow_deliverToClient]
        config_replenishCredit config_sub_flow [OF sub_flow_clearRequestTracking]
        config_sub_flow [OF sub_flow_updateSessionActivity] split: option.splits)

lemma config_handleInboundMessage: "config (handleInboundMessage T so pl now st) = config st"
proof -
  have r: "\<And>tg F. config (case routeToClient T tg pl now st of
                      (Inl e, st') \<Rightarrow> mux_emit (F e) st' | (Inr u, st') \<Rightarrow> st') = config st"
    by (rule result_cases) (simp_all add: config_routeToClient mux_emit_def)
  show ?thesis
    unfolding handleInboundMessage_def Let_def
    using r by (simp add: mux_emit_def split: option.splits)
qed

lemma config_handleOutboundMessage: "config (handleOutboundMessage T sid pl now st) = config st"
  unfolding handleOutboundMessage_def
  by (rule result_cases) (simp_all add: config_routeToBackend mux_emit_def)

lemma reachable_config: "reachable T cfg st \<Longrightarrow> config st = cfg"
proof (induction rule: reachable.induct)
  case r_new
  show ?case by (simp add: new_multiplexer_def)
next
  case (r_adapter st t)
  then show ?case by (simp add: setTransportAdapter_def)
next
  case (r_create st cpid tick rnd now)
  then show ?case by (simp add: createSession_def Let_def mux_emit_def)
next
  case (r_destroy st sid)
  then show ?case by (simp add: config_sub_flow [OF sub_flow_destroySession])
next
  case (r_toBackend st sid msg now)
  then show ?case by (simp add: config_routeToBackend)
next
  case (r_toClient st sid msg now)
  then show ?case by (simp add: config_routeToClient)
next
  case (r_inbound st so msg now)
  then show ?case by (simp add: config_handleInboundMessage)
next
  case (r_outbound st sid msg now)
  then show ?case by (simp add: config_handleOutboundMessage)
next
  case (r_timeout st h)
  then show ?case by (simp add: config_sub_flow [OF sub_flow_requestTimeoutFires])
next
  case (r_cleanup st now)
  then show ?case by (simp add: config_sub_flow [OF sub_flow_cleanupIdleSessions])
next
  case (r_destroyAll st)
  then show ?case by (simp add: config_sub_flow [OF sub_flow_destroy])
qed

lemmas mux_eval =
  createSession_def setTransportAdapter_def new_multiplexer_def default_config_def
  generateSessionId_def dec_int_def dec_nat.simps digit_def mux_emit_def Let_def
  DEFAULT_MAX_CONCURRENT_SESSIONS_def DEFAULT_SESSION_IDLE_TIMEOUT_def
  routeToBackend_def updateSessionActivity_def upd_session_def trackRequest_def
  setupRequestTimeout_def consumeCredit_def restoreCredit_def sendEnvelope_def
  routeToClient_def clearRequestTracking_def clearRequestTimeout_def replenishCredit_def
  processQueuedMessages_def deliverToClient_def clearTimeout_def slice_def
  T_ok_def mk_msg_def cfg1_def

lemma q0_eval:
  "q0 = \<lparr> config = cfg1,
          sessions = [(''session-5-abc'',
             \<lparr> s_id = ''session-5-abc'', clientPid = 1, s_startTime = 5, lastActivity = 5,
               isActive = True, pendingRequests = [], messageQueue = [], lastSequence = 0,
               flowControlWindow = 1, backpressure = False \<rparr>)],
          transportAdapter = Some (), cleanupInterval = True, messageRoutes = [], timers = [],
          nextTimer = 0, events = [SESSION_CREATED ''session-5-abc''], toBackend = [],
          toClient = [] \<rparr>"
  by (simp add: q0_def mux_eval)

lemma q1_eval:
  "q1 = \<lparr> config = cfg1,
          sessions = [(''session-5-abc'', q1_session)],
          transportAdapter = Some (), cleanupInterval = True,
          messageRoutes = [(IdNum 0, ''session-5-abc'')],
          timers = [(0, ''session-5-abc'', IdNum 0)],
          nextTimer = 1, events = [SESSION_CREATED ''session-5-abc''],
          toBackend = [\<lparr> sessionId = ''session-5-abc'', sequence = 1,
                         payload = mk_msg 0 (Some (IdNum 0)), timestamp = 6 \<rparr>],
          toClient = [] \<rparr>"
  unfolding q1_def q0_eval
  by (simp add: q1_session_def routeToBackend_def updateSessionActivity_def upd_session_def
        trackRequest_def setupRequestTimeout_def consumeCredit_def sendEnvelope_def Let_def
        T_ok_def mk_msg_def cfg1_def default_config_def)

lemma q1_reachable: "reachable T_ok cfg1 q1"
  unfolding q1_def q0_def
  by (intro reachable.r_toBackend reachable.r_create reachable.r_adapter reachable.r_new)

text \<open>
  C1 (as amended). In every state the multiplexer can reach, when the configured window
  size is at least 1, every session's backpressure flag equals (window \<le> 0) and the window
  is not negative.
\<close>

theorem flow_control_invariant:
  assumes "reachable T cfg st" and "0 < flowControlWindowSize cfg"
    and "map_of (sessions st) k = Some s"
  shows "backpressure s = (flowControlWindow s \<le> 0) \<and> 0 \<le> flowControlWindow s"
  using reachable_mux_inv [OF assms(1)] reachable_config [OF assms(1)] assms(2,3)
  by (simp add: mux_inv_def session_inv_def flow_ok_def)

theorem flow_control_invariant_witness:
  "reachable T_ok cfg1 q1 \<and> 0 < flowControlWindowSize cfg1
   \<and> map_of (sessions q1) ''session-5-abc'' = Some q1_session
   \<and> backpressure q1_session = (flowControlWindow q1_session \<le> 0)
   \<and> 0 \<le> flowControlWindow q1_session
   \<and> backpressure q1_session"
proof -
  have c: "0 < flowControlWindowSize cfg1" by (simp add: cfg1_def)
  have l: "map_of (sessions q1) ''session-5-abc'' = Some q1_session" by (simp add: q1_eval)
  have b: "backpressure q1_session" by (simp add: q1_session_def)
  show ?thesis
    using q1_reachable c l b flow_control_invariant [OF q1_reachable c l] by blast
qed

text \<open>
  C1 as stated also bounds the window by the configured size, for any configuration. A
  message routed to the client of a fresh session of the default configuration takes the
  window from 10 to 11; and with a configured size of 0 a new session has window 0 and
  its flag off.
\<close>

theorem window_above_configured_size_counterexample:
  "flowControlWindowSize (config mux1) = 10
   \<and> map (\<lambda>e. flowControlWindow (snd e))
        (sessions (snd (routeToClient T_ok ''session-5-abc'' (mk_msg 1 None) 6 mux1))) = [11]
   \<and> map (\<lambda>e. (flowControlWindow (snd e), backpressure (snd e)))
        (sessions (snd (createSession 1 5 ''abc'' 5
           (new_multiplexer (default_config \<lparr> flowControlWindowSize := 0 \<rparr>)
              :: unit SessionMultiplexerImpl)))) = [(0, False)]"
  by (simp add: mux1_def mux_eval)

text \<open>
  C10. For a backpressured session of a reachable state, \<open>routeToBackend\<close> returns
  normally and changes nothing but that session's \<open>lastActivity\<close> and \<open>messageQueue\<close>,
  to which the message is appended: the window, the sequence counter and the pending
  requests of the session, the routing table, the armed timers, the calls made to the
  adapter and the emitted events are as before.
\<close>

theorem backpressured_route_queues:
  assumes "reachable T cfg st" and "map_of (sessions st) sid = Some s" and "backpressure s"
  shows "routeToBackend T sid msg now st
           = (Inr (), upd_session sid
                        (\<lambda>x. x \<lparr> lastActivity := now, messageQueue := messageQueue x @ [msg] \<rparr>) st)
       \<and> map_of (sessions (snd (routeToBackend T sid msg now st))) sid
           = Some (s \<lparr> lastActivity := now, messageQueue := messageQueue s @ [msg] \<rparr>)
       \<and> (\<forall>k. k \<noteq> sid \<longrightarrow>
             map_of (sessions (snd (routeToBackend T sid msg now st))) k = map_of (sessions st) k)
       \<and> messageRoutes (snd (routeToBackend T sid msg now st)) = messageRoutes st
       \<and> timers (snd (routeToBackend T sid msg now st)) = timers st
       \<and> nextTimer (snd (routeToBackend T sid msg now st)) = nextTimer st
       \<and> toBackend (snd (routeToBackend T sid msg now st)) = toBackend st
       \<and> events (snd (routeToBackend T sid msg now st)) = events st"
proof -
  have "session_inv (config st) (transportAdapter st \<noteq> None) s"
    using reachable_mux_inv [OF assms(1)] assms(2) by (simp add: mux_inv_def)
  then have e: "enableFlowControl (config st)" and a: "transportAdapter st \<noteq> None"
    using assms(3) by (simp_all add: session_inv_def)
  obtain t where t: "transportAdapter st = Some t" using a by auto
  have eq: "routeToBackend T sid msg now st
           = (Inr (), upd_session sid
                        (\<lambda>x. x \<lparr> lastActivity := now, messageQueue := messageQueue x @ [msg] \<rparr>) st)"
    using assms(2,3) e t
    by (simp add: routeToBackend_def Let_def updateSessionActivity_def upd_session_fields
          upd_session_comp)
  show ?thesis
    using assms(2) by (simp add: eq mux_simps)
qed

theorem backpressured_route_queues_witness:
  "reachable T_ok cfg1 q1
   \<and> map_of (sessions q1) ''session-5-abc'' = Some q1_session
   \<and> backpressure q1_session
   \<and> routeToBackend T_ok ''session-5-abc'' (mk_msg 1 (Some (IdNum 1))) 7 q1
       = (Inr (), upd_session ''session-5-abc''
                    (\<lambda>x. x \<lparr> lastActivity := 7,
                             messageQueue := messageQueue x @ [mk_msg 1 (Some (IdNum 1))] \<rparr>) q1)
   \<and> messageRoutes (snd (routeToBackend T_ok ''session-5-abc'' (mk_msg 1 (Some (IdNum 1))) 7 q1))
       = [(IdNum 0, ''session-5-abc'')]
   \<and> timers (snd (routeToBackend T_ok ''session-5-abc'' (mk_msg 1 (Some (IdNum 1))) 7 q1))
       = [(0, ''session-5-abc'', IdNum 0)]"
proof -
  have l: "map_of (sessions q1) ''session-5-abc'' = Some q1_session" by (simp add: q1_eval)
  have b: "backpressure q1_session" by (simp add: q1_session_def)
  have r: "messageRoutes q1 = [(IdNum 0, ''session-5-abc'')]"
          "timers q1 = [(0, ''session-5-abc'', IdNum 0)]"
    by (simp_all add: q1_eval)
  note T = backpressured_route_queues [OF q1_reachable l b, of "mk_msg 1 (Some (IdNum 1))" 7, unfolded r]
  show ?thesis
    using q1_reachable l b T by blast
qed

section \<open>The multiplexer: the session cap\<close>

lemma length_update_fresh:
  "k \<notin> fst ` set al \<Longrightarrow> length (AList.update k v al) = Suc (length al)"
  by (induction al) auto

lemma length_delete_present:
  "map_of al k = Some v \<Longrightarrow> length (AList.delete k al) < length al"
proof -
  assume "map_of al k = Some v"
  then have "(k, v) \<in> set al" by (rule map_of_SomeD)
  then show ?thesis
    unfolding AList.delete_eq by (rule length_filter_less) simp
qed

lemma two_eval:
  "two = \<lparr> config = cfg2,
          sessions = [(''session-5-aaa'', new_session cfg2 ''session-5-aaa'' 1 5),
                      (''session-6-bbb'', new_session cfg2 ''session-6-bbb'' 2 6)],
          transportAdapter = None, cleanupInterval = True, messageRoutes = [], timers = [],
          nextTimer = 0,
          events = [SESSION_CREATED ''session-5-aaa'', SESSION_CREATED ''session-6-bbb''],
          toBackend = [], toClient = [] \<rparr>"
  by (simp add: two_def mux_eval cfg2_def new_session_def)

text \<open>
  The cap on sessions. With fewer sessions than the configured maximum, \<open>createSession\<close>
  succeeds, returns the generated id and stores a new session under it, leaving every
  other id as it was; the table grows by one when the generated id is not in use. With as
  many sessions as the maximum (or more) it fails with the SessionError "Maximum
  concurrent sessions exceeded" and changes nothing. From a table that is not over the
  maximum, destroying a session that exists lets \<open>createSession\<close> succeed.
\<close>

theorem createSession_capacity:
  "(int (length (sessions st)) < maxConcurrentSessions (config st) \<longrightarrow>
       fst (createSession cpid tick rnd now st) = Inr (generateSessionId tick rnd)
     \<and> map_of (sessions (snd (createSession cpid tick rnd now st))) (generateSessionId tick rnd)
         = Some (new_session (config st) (generateSessionId tick rnd) cpid now)
     \<and> (\<forall>k. k \<noteq> generateSessionId tick rnd \<longrightarrow>
           map_of (sessions (snd (createSession cpid tick rnd now st))) k = map_of (sessions st) k)
     \<and> (generateSessionId tick rnd \<notin> fst ` set (sessions st) \<longrightarrow>
           length (sessions (snd (createSession cpid tick rnd now st))) = length (sessions st) + 1))
   \<and> (maxConcurrentSessions (config st) \<le> int (length (sessions st)) \<longrightarrow>
       createSession cpid tick rnd now st
         = (Inl (SessionError ''Maximum concurrent sessions exceeded'' ''''), st))
   \<and> (int (length (sessions st)) \<le> maxConcurrentSessions (config st)
        \<and> map_of (sessions st) victim = Some s \<longrightarrow>
       fst (createSession cpid tick rnd now (destroySession victim st))
         = Inr (generateSessionId tick rnd))"
proof -
  have a: "int (length (sessions st)) < maxConcurrentSessions (config st) \<Longrightarrow>
       fst (createSession cpid tick rnd now st) = Inr (generateSessionId tick rnd)
     \<and> map_of (sessions (snd (createSession cpid tick rnd now st))) (generateSessionId tick rnd)
         = Some (new_session (config st) (generateSessionId tick rnd) cpid now)
     \<and> (\<forall>k. k \<noteq> generateSessionId tick rnd \<longrightarrow>
           map_of (sessions (snd (createSession cpid tick rnd now st))) k = map_of (sessions st) k)
     \<and> (generateSessionId tick rnd \<notin> fst ` set (sessions st) \<longrightarrow>
           length (sessions (snd (createSession cpid tick rnd now st))) = length (sessions st) + 1)"
    by (simp add: createSession_def Let_def mux_emit_def update_conv' new_session_def
          length_update_fresh)
  have b: "maxConcurrentSessions (config st) \<le> int (length (sessions st)) \<Longrightarrow>
       createSession cpid tick rnd now st
         = (Inl (SessionError ''Maximum concurrent sessions exceeded'' ''''), st)"
    by (simp add: createSession_def)
  have c: "int (length (sessions st)) \<le> maxConcurrentSessions (config st)
        \<and> map_of (sessions st) victim = Some s \<Longrightarrow>
       fst (createSession cpid tick rnd now (destroySession victim st))
         = Inr (generateSessionId tick rnd)"
  proof -
    assume h: "int (length (sessions st)) \<le> maxConcurrentSessions (config st)
        \<and> map_of (sessions st) victim = Some s"
    then have "length (AList.delete victim (sessions st)) < length (sessions st)"
      by (simp add: length_delete_present)
    then show ?thesis
      using h by (simp add: createSession_def destroySession_def mux_emit_def Let_def)
  qed
  show ?thesis using a b c by blast
qed

theorem createSession_capacity_witness:
  "int (length (sessions (new_multiplexer cfg2 :: unit SessionMultiplexerImpl)))
     < maxConcurrentSessions (config (new_multiplexer cfg2 :: unit SessionMultiplexerImpl))
   \<and> fst (createSession 1 5 ''aaa'' 5 (new_multiplexer cfg2 :: unit SessionMultiplexerImpl))
       = Inr ''session-5-aaa''
   \<and> maxConcurrentSessions (config two) \<le> int (length (sessions two))
   \<and> createSession 3 7 ''ccc'' 7 two
       = (Inl (SessionError ''Maximum concurrent sessions exceeded'' ''''), two)
   \<and> map_of (sessions two) ''session-5-aaa'' = Some (new_session cfg2 ''session-5-aaa'' 1 5)
   \<and> fst (createSession 3 7 ''ccc'' 7 (destroySession ''session-5-aaa'' two)) = Inr ''session-7-ccc''"
proof -
  let ?n = "new_multiplexer cfg2 :: unit SessionMultiplexerImpl"
  have g1: "generateSessionId 5 ''aaa'' = ''session-5-aaa''"
    and g3: "generateSessionId 7 ''ccc'' = ''session-7-ccc''"
    by (simp_all add: generateSessionId_def dec_int_def dec_nat.simps digit_def)
  have h1: "int (length (sessions ?n)) < maxConcurrentSessions (config ?n)"
    by (simp add: new_multiplexer_def cfg2_def default_config_def)
  have h2: "maxConcurrentSessions (config two) \<le> int (length (sessions two))"
    by (simp add: two_eval cfg2_def default_config_def)
  have h3: "int (length (sessions two)) \<le> maxConcurrentSessions (config two)
            \<and> map_of (sessions two) ''session-5-aaa'' = Some (new_session cfg2 ''session-5-aaa'' 1 5)"
    by (simp add: two_eval cfg2_def default_config_def)
  show ?thesis
    using h1 h2 h3
      createSession_capacity [of ?n 1 5 "''aaa''" 5, unfolded g1]
      createSession_capacity [of two 3 7 "''ccc''" 7 "''session-5-aaa''", unfolded g3]
    by blast
qed

text \<open>
  C5, on the code. The id of a new session is made of a reading of the clock and a random
  text, and \<open>createSession\<close> stores the session under it without looking whether the id
  is in use. When two calls meet the same reading and the same text, the second succeeds
  with the id of the first: it is not a fresh id, the session of the first caller is
  replaced and the table still holds one session.
\<close>

theorem session_id_collision:
  "fst (createSession 1 1700000000000 ''i'' 1700000000000
          (new_multiplexer default_config :: unit SessionMultiplexerImpl))
     = Inr ''session-1700000000000-i''
   \<and> int (length (sessions created_once)) < maxConcurrentSessions (config created_once)
   \<and> fst (createSession 2 1700000000000 ''i'' 1700000000000 created_once)
       = Inr ''session-1700000000000-i''
   \<and> map (\<lambda>e. (fst e, clientPid (snd e))) (sessions created_once)
       = [(''session-1700000000000-i'', 1)]
   \<and> map (\<lambda>e. (fst e, clientPid (snd e))) (sessions created_twice)
       = [(''session-1700000000000-i'', 2)]
   \<and> events created_twice
       = [SESSION_CREATED ''session-1700000000000-i'', SESSION_CREATED ''session-1700000000000-i'']"
  by (simp add: created_twice_def created_once_def mux_eval)

section \<open>The transport adapter: response timers and delivery to the client\<close>

lemma map_of_append_fresh:
  "list_all (\<lambda>e. fst e < h) ts \<Longrightarrow> map_of (ts @ [(h :: nat, v)]) h = Some v"
  by (induction ts) auto

lemma map_of_clearTimeout_fresh:
  "list_all (\<lambda>e. fst e < (h :: nat)) ts \<Longrightarrow> list_all (\<lambda>e. fst e < h) (clearTimeout k ts)"
  by (induction ts) (auto simp: clearTimeout_def)

lemma handleBackendResponse_fields:
  "emitted (handleBackendResponse now seq data t)
     = emitted t @ [MessageInbound \<lparr> in_sessionId = t_sessionId t, in_sequence = seq,
                                     in_payload = data, in_timestamp = now \<rparr>]"
  "t_sessionId (handleBackendResponse now seq data t) = t_sessionId t"
  "t_nextTimer (handleBackendResponse now seq data t) = t_nextTimer t"
  "isStarted (handleBackendResponse now seq data t) = isStarted t"
  by (simp_all add: handleBackendResponse_def emit_def Let_def split: option.splits)

lemma handleBackendResponse_fresh:
  "timers_fresh t \<Longrightarrow> timers_fresh (handleBackendResponse now seq data t)"
  by (simp add: handleBackendResponse_def emit_def Let_def timers_fresh_def
        map_of_clearTimeout_fresh split: option.splits)

text \<open>
  C2, on the code. In HTTP mode a request that the backend answers is sent successfully
  and its response is emitted as an inbound message; the response timer is armed only
  after that, under the handle \<open>t_nextTimer t\<close>, so the response cannot clear it: when it
  expires it emits the error "Request timeout for sequence n" for the request that was
  answered.
\<close>

theorem http_response_timer_fires:
  assumes "backendConnected t"
    and "backendType t = Http \<or> websocket t = None"
    and "io_post io e = Inr responseData"
    and "timers_fresh t"
  shows "fst (sendToBackend io e t) = Inr ()
       \<and> emitted (snd (sendToBackend io e t))
           = emitted t @ [MessageInbound \<lparr> in_sessionId = t_sessionId t,
                                           in_sequence = Some (JNum (int (sequence e))),
                                           in_payload = responseData, in_timestamp = io_now io \<rparr>]
       \<and> map_of (t_timers (snd (sendToBackend io e t))) (t_nextTimer t) = Some (sequence e)
       \<and> emitted (responseTimeoutFires (t_nextTimer t) (snd (sendToBackend io e t)))
           = emitted (snd (sendToBackend io e t))
               @ [ErrorEvent (TransportError (''Request timeout for sequence '' @ dec_nat (sequence e))
                                             (t_sessionId t))]"
proof -
  let ?t1 = "handleBackendResponse (io_now io) (Some (JNum (int (sequence e)))) responseData t"
  have s: "sendToBackend io e t = (Inr (), setResponseTimeout (sequence e) ?t1)"
    using assms(1,2,3) by (auto simp: sendToBackend_def sendViaHttp_def)
  have f: "list_all (\<lambda>x. fst x < t_nextTimer t) (t_timers ?t1)"
    using handleBackendResponse_fresh [OF assms(4), of "io_now io" "Some (JNum (int (sequence e)))" responseData]
    by (simp add: timers_fresh_def handleBackendResponse_fields)
  have tt: "t_timers (setResponseTimeout (sequence e) ?t1)
              = t_timers ?t1 @ [(t_nextTimer t, sequence e)]"
    by (simp add: setResponseTimeout_def handleBackendResponse_fields)
  have m: "map_of (t_timers (setResponseTimeout (sequence e) ?t1)) (t_nextTimer t) = Some (sequence e)"
    by (simp only: tt map_of_append_fresh [OF f])
  show ?thesis
    using m
    by (simp add: s responseTimeoutFires_def emit_def setResponseTimeout_def
          handleBackendResponse_fields)
qed

theorem http_response_timer_fires_witness:
  "backendConnected http_adapter \<and> backendType http_adapter = Http
   \<and> io_post io_answers request7 = Inr (JObj [(''id'', JNum 7), (''result'', JBool True)])
   \<and> timers_fresh http_adapter
   \<and> fst (sendToBackend io_answers request7 http_adapter) = Inr ()
   \<and> emitted (snd (sendToBackend io_answers request7 http_adapter))
       = [MessageInbound \<lparr> in_sessionId = ''s'', in_sequence = Some (JNum 1),
                           in_payload = JObj [(''id'', JNum 7), (''result'', JBool True)],
                           in_timestamp = 9 \<rparr>]
   \<and> map_of (t_timers (snd (sendToBackend io_answers request7 http_adapter))) 0 = Some 1
   \<and> emitted (responseTimeoutFires 0 (snd (sendToBackend io_answers request7 http_adapter)))
       = [MessageInbound \<lparr> in_sessionId = ''s'', in_sequence = Some (JNum 1),
                           in_payload = JObj [(''id'', JNum 7), (''result'', JBool True)],
                           in_timestamp = 9 \<rparr>,
          ErrorEvent (TransportError ''Request timeout for sequence 1'' ''s'')]"
proof -
  have a: "backendConnected http_adapter" and b: "backendType http_adapter = Http"
    and d: "timers_fresh http_adapter"
    by (simp_all add: http_adapter_def new_adapter_def timers_fresh_def)
  have c: "io_post io_answers request7 = Inr (JObj [(''id'', JNum 7), (''result'', JBool True)])"
    by (simp add: io_answers_def)
  have b': "backendType http_adapter = Http \<or> websocket http_adapter = None" using b by simp
  have v: "emitted http_adapter = []" "t_sessionId http_adapter = ''s''" "t_nextTimer http_adapter = 0"
     "sequence request7 = 1" "io_now io_answers = 9" "dec_nat (Suc 0) = ''1''"
    by (simp_all add: http_adapter_def new_adapter_def request7_def io_answers_def dec_nat.simps digit_def)
  note T = http_response_timer_fires [OF a b' c d]
  show ?thesis
    using a b c d T by (simp add: v)
qed

lemma map_of_clearTimeout_self: "map_of (clearTimeout h ts) h = None"
  by (induction ts) (auto simp: clearTimeout_def)

text \<open>
  In WebSocket mode the send returns before any reply: the timer is armed, and a reply
  frame in envelope format that carries the request's sequence clears it, so that it can
  no longer fire.
\<close>

lemma ws_response_clears_timer:
  assumes "backendConnected t" and "backendType t = WebSocket" and "websocket t = Some OPEN"
    and "\<not> io_wsFails io e" and "timers_fresh t"
    and "parse frame = Inr data" and "envelope_payload data = Some p"
    and "get_prop data ''sequence'' = Some (JNum (int (sequence e)))"
  shows "fst (sendToBackend io e t) = Inr ()
       \<and> map_of (t_timers (snd (sendToBackend io e t))) (t_nextTimer t) = Some (sequence e)
       \<and> map_of (t_timers (handleBackendMessage parse now frame (snd (sendToBackend io e t))))
             (t_nextTimer t) = None
       \<and> map_of (t_pendingRequests (handleBackendMessage parse now frame (snd (sendToBackend io e t))))
             (sequence e) = None
       \<and> responseTimeoutFires (t_nextTimer t)
             (handleBackendMessage parse now frame (snd (sendToBackend io e t)))
           = handleBackendMessage parse now frame (snd (sendToBackend io e t))"
proof -
  let ?t1 = "setResponseTimeout (sequence e) t"
  have s: "sendToBackend io e t = (Inr (), ?t1)"
    using assms(1-4) by (simp add: sendToBackend_def sendViaWebSocket_def)
  have f: "list_all (\<lambda>x. fst x < t_nextTimer t) (t_timers t)"
    using assms(5) by (simp add: timers_fresh_def)
  have tt: "t_timers ?t1 = t_timers t @ [(t_nextTimer t, sequence e)]"
    by (simp add: setResponseTimeout_def)
  have m: "map_of (t_timers ?t1) (t_nextTimer t) = Some (sequence e)"
    by (simp only: tt map_of_append_fresh [OF f])
  have pd: "map_of (t_pendingRequests ?t1) (sequence e) = Some (t_nextTimer t)"
    by (simp add: setResponseTimeout_def update_conv')
  have k: "seq_key (Some (JNum (int (sequence e)))) = Some (sequence e)"
    by (simp add: seq_key_def)
  obtain ps where d: "data = JObj ps"
    using assms(8) by (cases data) (simp_all add: get_prop_def)
  have h: "handleBackendMessage parse now frame ?t1
             = handleBackendResponse now (Some (JNum (int (sequence e)))) p ?t1"
    using assms(6,7,8) by (simp add: handleBackendMessage_def d)
  have r: "handleBackendResponse now (Some (JNum (int (sequence e)))) p ?t1
             = emit (MessageInbound \<lparr> in_sessionId = t_sessionId ?t1,
                                       in_sequence = Some (JNum (int (sequence e))),
                                       in_payload = p, in_timestamp = now \<rparr>)
                 (?t1 \<lparr> t_timers := clearTimeout (t_nextTimer t) (t_timers ?t1),
                        t_pendingRequests := AList.delete (sequence e) (t_pendingRequests ?t1) \<rparr>)"
    by (simp only: handleBackendResponse_def k pd Let_def option.case)
  have c: "map_of (t_timers (handleBackendMessage parse now frame ?t1)) (t_nextTimer t) = None"
    by (simp add: h r emit_def map_of_clearTimeout_self)
  have c2: "map_of (t_pendingRequests (handleBackendMessage parse now frame ?t1)) (sequence e) = None"
    by (simp add: h r emit_def delete_conv')
  have n: "responseTimeoutFires (t_nextTimer t) (handleBackendMessage parse now frame ?t1)
             = handleBackendMessage parse now frame ?t1"
    using c by (simp add: responseTimeoutFires_def)
  show ?thesis
    using m c c2 n by (simp add: s)
qed


lemma sendToBackend_sessionId:
  "t_sessionId (snd (sendToBackend io e t)) = t_sessionId t"
  by (simp add: sendToBackend_def sendViaWebSocket_def sendViaHttp_def setResponseTimeout_def
        handleBackendResponse_fields split: sum.splits)

lemma adapter_trackRequest: "transportAdapter (trackRequest sid msg now st) = transportAdapter st"
  by (simp add: trackRequest_def mux_simps split: option.splits)

lemma adapter_consumeCredit: "transportAdapter (consumeCredit sid st) = transportAdapter st"
  by (simp add: consumeCredit_def mux_simps)

lemma adapter_restoreCredit: "transportAdapter (restoreCredit sid st) = transportAdapter st"
  by (simp add: restoreCredit_def mux_simps)

lemma adapter_clearRequestTracking:
  "transportAdapter (clearRequestTracking sid msg st) = transportAdapter st"
  by (simp add: clearRequestTracking_def clearRequestTimeout_def mux_simps split: option.splits)

lemma stdio_routeToBackend_sessionId:
  "map_option t_sessionId (transportAdapter (snd (routeToBackend (stdio_ops bio cio) sid msg now st)))
     = map_option t_sessionId (transportAdapter st)"
  by (simp add: routeToBackend_def Let_def sendEnvelope_def stdio_ops_def updateSessionActivity_def
        adapter_trackRequest adapter_consumeCredit adapter_restoreCredit mux_simps
        sendToBackend_sessionId split: option.splits sum.splits)

lemma stdio_flush_sessionId:
  "map_option t_sessionId (transportAdapter (flush (stdio_ops bio cio) sid now messages todo st))
     = map_option t_sessionId (transportAdapter st)"
proof (induction todo arbitrary: st)
  case Nil
  show ?case by simp
next
  case (Cons m todo)
  obtain r st' where rt: "routeToBackend (stdio_ops bio cio) sid m now st = (r, st')"
    by (cases "routeToBackend (stdio_ops bio cio) sid m now st")
  have c: "map_option t_sessionId (transportAdapter st') = map_option t_sessionId (transportAdapter st)"
    using stdio_routeToBackend_sessionId [of bio cio sid m now st] rt by simp
  show ?case
    using rt c Cons.IH
    by (cases r) (simp_all add: mux_simps mux_emit_def split: option.splits)
qed

lemma stdio_replenishCredit_sessionId:
  "map_option t_sessionId (transportAdapter (replenishCredit (stdio_ops bio cio) sid now st))
     = map_option t_sessionId (transportAdapter st)"
  by (simp add: replenishCredit_def Let_def processQueuedMessages_def stdio_flush_sessionId
        mux_simps split: option.splits)

text \<open>
  C9. \<open>sendToClient\<close> throws the TransportError "Transport not started or session
  mismatch", writing nothing, whenever the adapter is not started or the session id is
  not its own; a call that writes to stdout is for the adapter's own session. So with the
  stdio adapter as transport, \<open>routeToClient\<close> for a session id other than the adapter's
  returns a SessionError.
\<close>

theorem sendToClient_own_session_only:
  "(\<not> isStarted t \<or> sid \<noteq> t_sessionId t \<longrightarrow>
      sendToClient io sid data t
        = (Inl (TransportError ''Transport not started or session mismatch'' sid), t))
   \<and> (stdout (snd (sendToClient io sid data t)) \<noteq> stdout t \<longrightarrow>
        isStarted t \<and> sid = t_sessionId t)
   \<and> ((\<forall>a. transportAdapter st = Some a \<longrightarrow> sid \<noteq> t_sessionId a) \<longrightarrow>
        fst (routeToClient (stdio_ops bio cio) sid msg now st)
          \<in> {Inl (SessionError ''Session not found'' sid),
              Inl (SessionError ''Transport adapter not configured'' sid),
              Inl (SessionError
                 ''Failed to route message to client: Transport not started or session mismatch''
                 sid)})"
proof -
  have a: "\<not> isStarted t \<or> sid \<noteq> t_sessionId t \<longrightarrow>
      sendToClient io sid data t
        = (Inl (TransportError ''Transport not started or session mismatch'' sid), t)"
    by (simp add: sendToClient_def)
  have b: "stdout (snd (sendToClient io sid data t)) \<noteq> stdout t \<longrightarrow>
        isStarted t \<and> sid = t_sessionId t"
    by (auto simp: sendToClient_def Let_def split: option.splits)
  have c: "(\<forall>a. transportAdapter st = Some a \<longrightarrow> sid \<noteq> t_sessionId a) \<longrightarrow>
        fst (routeToClient (stdio_ops bio cio) sid msg now st)
          \<in> {Inl (SessionError ''Session not found'' sid),
              Inl (SessionError ''Transport adapter not configured'' sid),
              Inl (SessionError
                 ''Failed to route message to client: Transport not started or session mismatch''
                 sid)}"
  proof
    assume h: "\<forall>a. transportAdapter st = Some a \<longrightarrow> sid \<noteq> t_sessionId a"
    show "fst (routeToClient (stdio_ops bio cio) sid msg now st)
          \<in> {Inl (SessionError ''Session not found'' sid),
              Inl (SessionError ''Transport adapter not configured'' sid),
              Inl (SessionError
                 ''Failed to route message to client: Transport not started or session mismatch''
                 sid)}"
    proof (cases "map_of (sessions st) sid = None \<or> transportAdapter st = None")
      case True
      then show ?thesis by (auto simp: routeToClient_def split: option.splits)
    next
      case False
      then obtain s0 t0 where s0: "map_of (sessions st) sid = Some s0"
        and t0: "transportAdapter st = Some t0" by auto
      let ?st3 = "replenishCredit (stdio_ops bio cio) sid now
                    (clearRequestTracking sid msg (updateSessionActivity sid now st))"
      have "map_option t_sessionId (transportAdapter ?st3) = Some (t_sessionId t0)"
        using t0
        by (simp add: stdio_replenishCredit_sessionId adapter_clearRequestTracking
              updateSessionActivity_def mux_simps)
      then obtain t3 where t3: "transportAdapter ?st3 = Some t3" and i3: "t_sessionId t3 = t_sessionId t0"
        by auto
      have ne: "sid \<noteq> t_sessionId t3" using h t0 i3 by simp
      have "fst (deliverToClient (stdio_ops bio cio) sid msg ?st3)
              = Inl (SessionError
                 ''Failed to route message to client: Transport not started or session mismatch''
                 sid)"
        using t3 ne by (simp add: deliverToClient_def Let_def stdio_ops_def sendToClient_def)
      then show ?thesis using s0 t0 by (simp add: routeToClient_def)
    qed
  qed
  show ?thesis using a b c by blast
qed

theorem sendToClient_own_session_only_witness:
  "''session-5-abc'' \<noteq> t_sessionId http_adapter
   \<and> sendToClient io_stdout ''session-5-abc'' (mk_msg 1 None) http_adapter
       = (Inl (TransportError ''Transport not started or session mismatch'' ''session-5-abc''),
          http_adapter)
   \<and> stdout (snd (sendToClient io_stdout ''s'' (mk_msg 1 None) http_adapter))
       = [''{}'' @ [CHR 0x0A]]
   \<and> transportAdapter wired = Some http_adapter
   \<and> fst (routeToClient (stdio_ops io_answers io_stdout) ''session-5-abc'' (mk_msg 1 None) 6 wired)
       = Inl (SessionError
           ''Failed to route message to client: Transport not started or session mismatch''
           ''session-5-abc'')"
proof -
  have n: "''session-5-abc'' \<noteq> t_sessionId http_adapter"
    by (simp add: http_adapter_def new_adapter_def)
  have w: "transportAdapter wired = Some http_adapter"
    by (simp add: wired_def createSession_def setTransportAdapter_def new_multiplexer_def
          default_config_def DEFAULT_MAX_CONCURRENT_SESSIONS_def mux_emit_def Let_def)
  have s: "map_of (sessions wired) ''session-5-abc'' \<noteq> None"
    by (simp add: wired_def mux_eval)
  have o: "stdout (snd (sendToClient io_stdout ''s'' (mk_msg 1 None) http_adapter))
       = [''{}'' @ [CHR 0x0A]]"
    by (simp add: sendToClient_def io_stdout_def http_adapter_def new_adapter_def Let_def)
  have h: "\<forall>a. transportAdapter wired = Some a \<longrightarrow> ''session-5-abc'' \<noteq> t_sessionId a"
    using n w by simp
  have r: "fst (routeToClient (stdio_ops io_answers io_stdout) ''session-5-abc'' (mk_msg 1 None) 6 wired)
       = Inl (SessionError
           ''Failed to route message to client: Transport not started or session mismatch''
           ''session-5-abc'')"
    by (simp add: wired_def mux_eval stdio_ops_def sendToClient_def http_adapter_def
          new_adapter_def)
  note T = sendToClient_own_session_only
    [where t = http_adapter and sid = "''session-5-abc''" and io = io_stdout
       and data = "mk_msg 1 None" and st = wired and bio = io_answers and cio = io_stdout
       and msg = "mk_msg 1 None" and now = 6]
  show ?thesis
    using n w o h r T by auto
qed

section \<open>The multiplexer: flushing the queue\<close>

lemma queue_kept_refl: "queue_kept sid st st"
  by (simp add: queue_kept_def)

lemma queue_kept_trans: "queue_kept sid a b \<Longrightarrow> queue_kept sid b c \<Longrightarrow> queue_kept sid a c"
  unfolding queue_kept_def by (metis (no_types, lifting))

lemma queue_kept_upd_session:
  "(\<And>s. messageQueue (f s) = messageQueue s \<and> backpressure (f s) = backpressure s
          \<and> flowControlWindow (f s) = flowControlWindow s)
     \<Longrightarrow> queue_kept sid st (upd_session k f st)"
  by (auto simp: queue_kept_def mux_simps)

lemma queue_kept_emit: "queue_kept sid st (mux_emit e st)"
  by (simp add: queue_kept_def mux_emit_def)

lemma queue_kept_updateSessionActivity: "queue_kept sid st (updateSessionActivity k now st)"
  unfolding updateSessionActivity_def by (rule queue_kept_upd_session) simp

lemma queue_kept_trackRequest: "queue_kept sid st (trackRequest k msg now st)"
  by (auto simp: queue_kept_def trackRequest_def mux_simps split: option.splits)

lemma queue_kept_clearRequestTracking: "queue_kept sid st (clearRequestTracking k msg st)"
  by (auto simp: queue_kept_def clearRequestTracking_def clearRequestTimeout_def mux_simps
      split: option.splits)

lemma queue_kept_deliverToClient: "queue_kept sid st (snd (deliverToClient T k msg st))"
  by (simp add: queue_kept_def deliverToClient_def Let_def split: option.splits sum.splits)

lemma indexOf_distinct:
  "distinct (map msgRef (xs @ m # ys)) \<Longrightarrow> indexOf (xs @ m # ys) m = int (length xs)"
  by (induction xs) (auto simp: Let_def)

lemma slice_at: "slice (xs @ ys) (int (length xs)) = ys"
  by (simp add: slice_def)

text \<open>What a send (a route to the backend on a session that is not backpressured) does.\<close>

lemma routeToBackend_sends:
  assumes "map_of (sessions st) sid = Some s" and "transportAdapter st = Some t"
    and "\<not> backpressure s"
  shows "\<exists>s'. map_of (sessions (snd (routeToBackend T sid msg now st))) sid = Some s'
       \<and> messageQueue s' = messageQueue s
       \<and> lastSequence s' = lastSequence s + 1
       \<and> toBackend (snd (routeToBackend T sid msg now st))
           = toBackend st @ [\<lparr> sessionId = sid, sequence = lastSequence s + 1, payload = msg,
                                timestamp = now \<rparr>]
       \<and> transportAdapter (snd (routeToBackend T sid msg now st)) \<noteq> None"
  using assms
  by (cases "msgId msg")
     (simp_all add: routeToBackend_def Let_def sendEnvelope_def updateSessionActivity_def
        trackRequest_def consumeCredit_def restoreCredit_def mux_simps split: sum.splits)

lemma flush_fifo:
  assumes "distinct (map msgRef (sent @ todo))"
    and "map_of (sessions st) sid = Some s" and "transportAdapter st \<noteq> None"
  shows "\<exists>k s'. k \<le> length todo
       \<and> map payload (toBackend (flush T sid now (sent @ todo) todo st))
           = map payload (toBackend st) @ take k todo
       \<and> map_of (sessions (flush T sid now (sent @ todo) todo st)) sid = Some s'
       \<and> messageQueue s' = drop k todo @ messageQueue s
       \<and> (k < length todo \<longrightarrow> backpressure s')
       \<and> (todo \<noteq> [] \<and> \<not> backpressure s \<longrightarrow> 0 < k)"
  using assms
proof (induction todo arbitrary: sent st s)
  case Nil
  then show ?case by simp
next
  case (Cons m todo)
  show ?case
  proof (cases "backpressure s")
    case True
    have i: "indexOf (sent @ m # todo) m = int (length sent)"
      using Cons.prems(1) by (rule indexOf_distinct)
    have "flush T sid now (sent @ m # todo) (m # todo) st
            = upd_session sid (\<lambda>x. x \<lparr> messageQueue := (m # todo) @ messageQueue x \<rparr>) st"
      using Cons.prems(2) True by (simp add: i slice_at)
    then show ?thesis
      using Cons.prems(2) True
      by (intro exI [of _ 0]) (simp add: mux_simps)
  next
    case False
    obtain t where t: "transportAdapter st = Some t" using Cons.prems(3) by auto
    obtain r st' where rt: "routeToBackend T sid m now st = (r, st')"
      by (cases "routeToBackend T sid m now st")
    obtain s1 where s1: "map_of (sessions st') sid = Some s1"
      and q1: "messageQueue s1 = messageQueue s"
      and b1: "toBackend st' = toBackend st @ [\<lparr> sessionId = sid, sequence = lastSequence s + 1,
                                                  payload = m, timestamp = now \<rparr>]"
      and a1: "transportAdapter st' \<noteq> None"
      using routeToBackend_sends [OF Cons.prems(2) t False, of T m now] rt by auto
    let ?st'' = "(case r of Inl e \<Rightarrow> mux_emit (MuxError (SessionError
                      (''Failed to process queued message: '' @ message_of e) sid)) st'
                 | Inr u \<Rightarrow> st')"
    have s1': "map_of (sessions ?st'') sid = Some s1"
      and b1': "toBackend ?st'' = toBackend st'"
      and a1': "transportAdapter ?st'' \<noteq> None"
      using s1 a1 by (cases r; simp add: mux_emit_def)+
    have f: "flush T sid now (sent @ m # todo) (m # todo) st
               = flush T sid now ((sent @ [m]) @ todo) todo ?st''"
      using Cons.prems(2) False rt by (cases r) simp_all
    have d: "distinct (map msgRef ((sent @ [m]) @ todo))" using Cons.prems(1) by simp
    obtain k s' where k: "k \<le> length todo"
      and tb: "map payload (toBackend (flush T sid now ((sent @ [m]) @ todo) todo ?st''))
                 = map payload (toBackend ?st'') @ take k todo"
      and l: "map_of (sessions (flush T sid now ((sent @ [m]) @ todo) todo ?st'')) sid = Some s'"
      and q: "messageQueue s' = drop k todo @ messageQueue s1"
      and bp: "k < length todo \<longrightarrow> backpressure s'"
      using Cons.IH [OF d s1' a1'] by blast
    have tb': "map payload (toBackend (flush T sid now (sent @ m # todo) (m # todo) st))
                 = map payload (toBackend st) @ take (Suc k) (m # todo)"
      unfolding f using tb b1 b1' by (simp del: flush.simps)
    have l': "map_of (sessions (flush T sid now (sent @ m # todo) (m # todo) st)) sid = Some s'"
      unfolding f using l by (simp del: flush.simps)
    have q': "messageQueue s' = drop (Suc k) (m # todo) @ messageQueue s"
      using q q1 by simp
    have k': "Suc k \<le> length (m # todo)" using k by simp
    have bp': "Suc k < length (m # todo) \<longrightarrow> backpressure s'" using bp by simp
    have "0 < Suc k" by simp
    then show ?thesis
      using k' tb' l' q' bp' by blast
  qed
qed


lemma processQueuedMessages_fifo:
  assumes "map_of (sessions st) sid = Some s" and "transportAdapter st \<noteq> None"
    and "\<not> backpressure s" and "distinct (map msgRef (messageQueue s))"
  shows "\<exists>k s'. k \<le> length (messageQueue s)
       \<and> map payload (toBackend (processQueuedMessages T sid now st))
           = map payload (toBackend st) @ take k (messageQueue s)
       \<and> map_of (sessions (processQueuedMessages T sid now st)) sid = Some s'
       \<and> messageQueue s' = drop k (messageQueue s)
       \<and> (k < length (messageQueue s) \<longrightarrow> backpressure s')
       \<and> (messageQueue s \<noteq> [] \<longrightarrow> 0 < k)"
proof (cases "messageQueue s = []")
  case True
  then show ?thesis using assms(1) by (simp add: processQueuedMessages_def)
next
  case False
  let ?st = "upd_session sid (\<lambda>x. x \<lparr> messageQueue := [] \<rparr>) st"
  let ?s = "s \<lparr> messageQueue := [] \<rparr>"
  have p: "processQueuedMessages T sid now st
             = flush T sid now ([] @ messageQueue s) (messageQueue s) ?st"
    using assms(1) False by (simp add: processQueuedMessages_def)
  have l: "map_of (sessions ?st) sid = Some ?s" using assms(1) by (simp add: mux_simps)
  have a: "transportAdapter ?st \<noteq> None" using assms(2) by (simp add: mux_simps)
  have d: "distinct (map msgRef ([] @ messageQueue s))" using assms(4) by simp
  have b: "\<not> backpressure ?s" using assms(3) by simp
  obtain k s' where "k \<le> length (messageQueue s)"
      "map payload (toBackend (flush T sid now ([] @ messageQueue s) (messageQueue s) ?st))
         = map payload (toBackend ?st) @ take k (messageQueue s)"
      "map_of (sessions (flush T sid now ([] @ messageQueue s) (messageQueue s) ?st)) sid = Some s'"
      "messageQueue s' = drop k (messageQueue s) @ messageQueue ?s"
      "k < length (messageQueue s) \<longrightarrow> backpressure s'"
      "messageQueue s \<noteq> [] \<and> \<not> backpressure ?s \<longrightarrow> 0 < k"
    using flush_fifo [OF d l a, of T now] by blast
  then show ?thesis
    unfolding p using b by (intro exI [of _ k] exI [of _ s']) (simp add: mux_simps)
qed

text \<open>
  When the queue holds pairwise different message objects, a \<^verbatim>\<open>routeToClient\<close> on a
  backpressured session sends a prefix of the queue, in the order of the queue, and leaves
  the rest of it queued in the same order; at least one message is sent, and the session is
  backpressured again when some message is left.
\<close>

lemma routeToClient_flushes_fifo:
  assumes "map_of (sessions st) sid = Some s" and "transportAdapter st \<noteq> None"
    and "enableFlowControl (config st)" and "backpressure s" and "0 \<le> flowControlWindow s"
    and "distinct (map msgRef (messageQueue s))"
  shows "\<exists>k s'. k \<le> length (messageQueue s)
       \<and> map payload (toBackend (snd (routeToClient T sid msg now st)))
           = map payload (toBackend st) @ take k (messageQueue s)
       \<and> map_of (sessions (snd (routeToClient T sid msg now st))) sid = Some s'
       \<and> messageQueue s' = drop k (messageQueue s)
       \<and> (k < length (messageQueue s) \<longrightarrow> backpressure s')
       \<and> (messageQueue s \<noteq> [] \<longrightarrow> 0 < k)"
proof -
  let ?st2 = "clearRequestTracking sid msg (updateSessionActivity sid now st)"
  have kept: "queue_kept sid st ?st2"
    by (rule queue_kept_trans [OF queue_kept_updateSessionActivity
          queue_kept_clearRequestTracking])
  then obtain s2 where l2: "map_of (sessions ?st2) sid = Some s2"
    and q2: "messageQueue s2 = messageQueue s" and b2: "backpressure s2 = backpressure s"
    and w2: "flowControlWindow s2 = flowControlWindow s"
    using assms(1) unfolding queue_kept_def by blast
  have c2: "config ?st2 = config st" and a2: "transportAdapter ?st2 \<noteq> None"
    and t2: "toBackend ?st2 = toBackend st"
    using kept assms(2) unfolding queue_kept_def by simp_all
  let ?st3 = "upd_session sid (\<lambda>x. x \<lparr> backpressure := False \<rparr>)
               (upd_session sid (\<lambda>x. x \<lparr> flowControlWindow := flowControlWindow x + 1 \<rparr>) ?st2)"
  let ?s3 = "s2 \<lparr> flowControlWindow := flowControlWindow s2 + 1, backpressure := False \<rparr>"
  have r: "replenishCredit T sid now ?st2 = processQueuedMessages T sid now ?st3"
    using assms(3,4,5) l2 b2 w2 c2 by (simp add: replenishCredit_def Let_def)
  have l3: "map_of (sessions ?st3) sid = Some ?s3" using l2 by (simp add: mux_simps)
  have a3: "transportAdapter ?st3 \<noteq> None" using a2 by (simp add: mux_simps)
  have t3: "toBackend ?st3 = toBackend st" using t2 by (simp add: mux_simps)
  have b3: "\<not> backpressure ?s3" by simp
  have d3: "distinct (map msgRef (messageQueue ?s3))" using assms(6) q2 by simp
  obtain k s4 where k: "k \<le> length (messageQueue ?s3)"
    and t4: "map payload (toBackend (processQueuedMessages T sid now ?st3))
               = map payload (toBackend ?st3) @ take k (messageQueue ?s3)"
    and l4: "map_of (sessions (processQueuedMessages T sid now ?st3)) sid = Some s4"
    and q4: "messageQueue s4 = drop k (messageQueue ?s3)"
    and b4: "k < length (messageQueue ?s3) \<longrightarrow> backpressure s4"
    and p4: "messageQueue ?s3 \<noteq> [] \<longrightarrow> 0 < k"
    using processQueuedMessages_fifo [OF l3 a3 b3 d3, of T now] by blast
  let ?st4 = "processQueuedMessages T sid now ?st3"
  obtain t where t: "transportAdapter st = Some t" using assms(2) by auto
  have rc: "snd (routeToClient T sid msg now st) = snd (deliverToClient T sid msg ?st4)"
    using assms(1) t by (simp add: routeToClient_def r)
  have kept5: "queue_kept sid ?st4 (snd (deliverToClient T sid msg ?st4))"
    by (rule queue_kept_deliverToClient)
  then obtain s5 where l5: "map_of (sessions (snd (deliverToClient T sid msg ?st4))) sid = Some s5"
    and q5: "messageQueue s5 = messageQueue s4" and b5: "backpressure s5 = backpressure s4"
    using l4 unfolding queue_kept_def by blast
  have t5: "toBackend (snd (deliverToClient T sid msg ?st4)) = toBackend ?st4"
    using kept5 unfolding queue_kept_def by simp
  show ?thesis
    unfolding rc using k t4 l5 q5 b5 q4 b4 p4 t5 t3 q2
    by (intro exI [of _ k] exI [of _ s5]) simp
qed

lemma distinct_messages_flushed_example:
  "map (\<lambda>e. messageQueue (snd e)) (sessions q3) = [[mk_msg 1 None, mk_msg 2 None]]
   \<and> map (\<lambda>e. msgRef (payload e)) (toBackend (credit q3)) = [0, 1]
   \<and> map (\<lambda>e. messageQueue (snd e)) (sessions (credit q3)) = [[mk_msg 2 None]]
   \<and> map (\<lambda>e. msgRef (payload e)) (toBackend (credit (credit q3))) = [0, 1, 2]
   \<and> map (\<lambda>e. messageQueue (snd e)) (sessions (credit (credit q3))) = [[]]"
  by (simp add: q3_def credit_def q1_eval q1_session_def mux_eval)

text \<open>
  C3, on the code. The flush finds the suffix to put back with \<^verbatim>\<open>messages.indexOf(message)\<close>,
  the first position of that object. When the same message object was queued twice (\<open>q2\<close>,
  window size 1), the credit sends it once and backpressure is on again at its second
  position; the first position is found, so both entries are put back, the sent one
  included, where the unsent suffix is the second entry alone. The queue never shrinks:
  after three credits the message queued twice has been sent three times.
\<close>

theorem duplicate_message_requeued:
  "map (\<lambda>e. messageQueue (snd e)) (sessions q2) = [[mk_msg 1 None, mk_msg 1 None]]
   \<and> map (\<lambda>e. msgRef (payload e)) (toBackend q2) = [0]
   \<and> map (\<lambda>e. msgRef (payload e)) (toBackend (credit q2)) = [0, 1]
   \<and> map (\<lambda>e. messageQueue (snd e)) (sessions (credit q2)) = [[mk_msg 1 None, mk_msg 1 None]]
   \<and> map (\<lambda>e. msgRef (payload e)) (toBackend (credit (credit (credit q2)))) = [0, 1, 1, 1]
   \<and> map (\<lambda>e. messageQueue (snd e)) (sessions (credit (credit (credit q2))))
       = [[mk_msg 1 None, mk_msg 1 None]]"
  by (simp add: q2_def credit_def q1_eval q1_session_def mux_eval)

section \<open>The adapter and the multiplexer: inbound dispatch\<close>

lemma generateSessionId_nonempty: "generateSessionId tick rnd \<noteq> []"
  by (simp add: generateSessionId_def)

lemma handleBackendMessage_stamped:
  assumes "MessageInbound envelope \<in> set (emitted (handleBackendMessage parse now frame t))"
  shows "MessageInbound envelope \<in> set (emitted t) \<or> in_sessionId envelope = t_sessionId t"
proof (cases "parse frame")
  case (Inl msg)
  then show ?thesis using assms by (simp add: handleBackendMessage_def emit_def)
next
  case (Inr data)
  show ?thesis
  proof (cases "envelope_payload data")
    case None
    then show ?thesis
      using assms Inr by (cases data) (auto simp: handleBackendMessage_def emit_def)
  next
    case (Some p)
    then show ?thesis
      using assms Inr
      by (cases data) (auto simp: handleBackendMessage_def emit_def handleBackendResponse_fields)
  qed
qed

lemma sendToBackend_stamped:
  assumes "MessageInbound envelope \<in> set (emitted (snd (sendToBackend io e t)))"
  shows "MessageInbound envelope \<in> set (emitted t) \<or> in_sessionId envelope = t_sessionId t"
  using assms
  by (auto simp: sendToBackend_def sendViaWebSocket_def sendViaHttp_def setResponseTimeout_def
        handleBackendResponse_fields split: if_splits sum.splits)

lemma routeToClient_no_session:
  "map_of (sessions st) sid = None \<Longrightarrow>
     routeToClient T sid pl now st = (Inl (SessionError ''Session not found'' sid), st)"
  by (simp add: routeToClient_def)

lemma routeToClient_delivers:
  assumes "map_of (sessions st) sid = Some s" and "\<not> backpressure s"
    and "transportAdapter st = Some t0" and "fst (tr_sendToClient T sid pl t0) = Inr ()"
  shows "fst (routeToClient T sid pl now st) = Inr ()
       \<and> events (snd (routeToClient T sid pl now st)) = events st
       \<and> toClient (snd (routeToClient T sid pl now st)) = toClient st @ [(sid, pl)]"
  using assms
  by (cases "msgId pl")
     (simp_all add: routeToClient_def deliverToClient_def replenishCredit_def
        clearRequestTracking_def clearRequestTimeout_def updateSessionActivity_def
        mux_simps Let_def split: option.splits)

lemma handleInboundMessage_with_session:
  "sid \<noteq> [] \<Longrightarrow>
     handleInboundMessage T (Some sid) pl now st
       = (case routeToClient T sid pl now st of
            (Inl e, st') \<Rightarrow>
              mux_emit (MuxError (SessionError
                (''Failed to handle inbound message: '' @ message_of e) sid)) st'
          | (Inr u, st') \<Rightarrow> st')"
  by (simp add: handleInboundMessage_def truthy_def Let_def split: prod.splits sum.splits)

lemma mux1_eval:
  "mux1 = \<lparr> config = default_config,
            sessions = [(''session-5-abc'', new_session default_config ''session-5-abc'' 1 5)],
            transportAdapter = Some (), cleanupInterval = True, messageRoutes = [], timers = [],
            nextTimer = 0, events = [SESSION_CREATED ''session-5-abc''], toBackend = [],
            toClient = [] \<rparr>"
  by (simp add: mux1_def new_session_def createSession_def setTransportAdapter_def
        new_multiplexer_def generateSessionId_def dec_int_def dec_nat.simps digit_def
        mux_emit_def Let_def default_config_def DEFAULT_MAX_CONCURRENT_SESSIONS_def)

lemma sent0_eval:
  "sent0 = wired_ws
     \<lparr> sessions := [(''session-5-abc'',
          (new_session default_config ''session-5-abc'' 1 5)
            \<lparr> lastActivity := 6,
              pendingRequests := [(IdNum 0, \<lparr> pr_timestamp = 6, pr_timeout = 0 \<rparr>)],
              lastSequence := 1, flowControlWindow := 9 \<rparr>)],
       transportAdapter := Some (setResponseTimeout 1 ws_adapter),
       messageRoutes := [(IdNum 0, ''session-5-abc'')],
       timers := [(0, ''session-5-abc'', IdNum 0)], nextTimer := 1,
       toBackend := [\<lparr> sessionId = ''session-5-abc'', sequence = 1,
                       payload = mk_msg 0 (Some (IdNum 0)), timestamp = 6 \<rparr>] \<rparr>"
  by (simp add: sent0_def wired_ws_def new_session_def mux_eval stdio_ops_def sendToBackend_def
        sendViaWebSocket_def ws_adapter_def new_adapter_def io_answers_def)

text \<open>
  C8 (as amended). An inbound envelope that reaches the multiplexer without a session id
  (absent or empty) is resolved through the routing table by the id of its message: when
  the message has no id, or its id has no (non-empty) entry, the only effect is one error
  event "Unable to route inbound message - no session found" and the adapter's
  \<open>sendToClient\<close> is not called; when the id has an entry, the message is routed to the
  client of the session found. The stdio adapter, however, puts its own session id, which
  is never empty, on every inbound envelope it emits, for a socket frame and for the
  reply to an HTTP request alike. For an envelope with a session id the routing table is
  not consulted: the message is routed to the session of that id whatever the id of the
  message; when the multiplexer has no such session the error event "Failed to handle
  inbound message: Session not found" is emitted and nothing is delivered, and when it has
  one that is not backpressured and the write succeeds, the message is delivered with no
  error event.
\<close>

theorem inbound_dispatch:
  "(\<not> truthy so \<longrightarrow>
      ((case msgId pl of None \<Rightarrow> True | Some i \<Rightarrow> \<not> truthy (map_of (messageRoutes st) i)) \<longrightarrow>
          handleInboundMessage T so pl now st
            = mux_emit (MuxError (SessionError
                ''Unable to route inbound message - no session found'' ''unknown'')) st
        \<and> toClient (handleInboundMessage T so pl now st) = toClient st)
    \<and> (\<forall>i target. msgId pl = Some i \<and> map_of (messageRoutes st) i = Some target \<and> target \<noteq> [] \<longrightarrow>
          handleInboundMessage T so pl now st
            = (case routeToClient T target pl now st of
                 (Inl e, st') \<Rightarrow>
                   mux_emit (MuxError (SessionError
                     (''Failed to handle inbound message: '' @ message_of e) target)) st'
               | (Inr u, st') \<Rightarrow> st')))
   \<and> generateSessionId tick rnd \<noteq> []
   \<and> (\<forall>envelope. MessageInbound envelope \<in> set (emitted (handleBackendMessage parse clock frame t)) \<longrightarrow>
         MessageInbound envelope \<in> set (emitted t) \<or> in_sessionId envelope = t_sessionId t)
   \<and> (\<forall>envelope. MessageInbound envelope \<in> set (emitted (snd (sendToBackend io e t))) \<longrightarrow>
         MessageInbound envelope \<in> set (emitted t) \<or> in_sessionId envelope = t_sessionId t)
   \<and> (sid \<noteq> [] \<longrightarrow>
        handleInboundMessage T (Some sid) pl now st
          = (case routeToClient T sid pl now st of
               (Inl e, st') \<Rightarrow>
                 mux_emit (MuxError (SessionError
                   (''Failed to handle inbound message: '' @ message_of e) sid)) st'
             | (Inr u, st') \<Rightarrow> st')
      \<and> (map_of (sessions st) sid = None \<longrightarrow>
            handleInboundMessage T (Some sid) pl now st
              = mux_emit (MuxError (SessionError
                  ''Failed to handle inbound message: Session not found'' sid)) st)
      \<and> (\<forall>s t0. map_of (sessions st) sid = Some s \<and> \<not> backpressure s
              \<and> transportAdapter st = Some t0 \<and> fst (tr_sendToClient T sid pl t0) = Inr () \<longrightarrow>
            events (handleInboundMessage T (Some sid) pl now st) = events st
          \<and> toClient (handleInboundMessage T (Some sid) pl now st) = toClient st @ [(sid, pl)]))"
proof -
  have a: "\<not> truthy so \<Longrightarrow>
      ((case msgId pl of None \<Rightarrow> True | Some i \<Rightarrow> \<not> truthy (map_of (messageRoutes st) i)) \<longrightarrow>
          handleInboundMessage T so pl now st
            = mux_emit (MuxError (SessionError
                ''Unable to route inbound message - no session found'' ''unknown'')) st
        \<and> toClient (handleInboundMessage T so pl now st) = toClient st)
    \<and> (\<forall>i target. msgId pl = Some i \<and> map_of (messageRoutes st) i = Some target \<and> target \<noteq> [] \<longrightarrow>
          handleInboundMessage T so pl now st
            = (case routeToClient T target pl now st of
                 (Inl e, st') \<Rightarrow>
                   mux_emit (MuxError (SessionError
                     (''Failed to handle inbound message: '' @ message_of e) target)) st'
               | (Inr u, st') \<Rightarrow> st'))"
    by (auto simp: handleInboundMessage_def Let_def truthy_def or_unknown_def mux_emit_def
        split: option.splits)
  have b: "generateSessionId tick rnd \<noteq> []" by (rule generateSessionId_nonempty)
  have c: "\<forall>envelope. MessageInbound envelope \<in> set (emitted (handleBackendMessage parse clock frame t)) \<longrightarrow>
         MessageInbound envelope \<in> set (emitted t) \<or> in_sessionId envelope = t_sessionId t"
    using handleBackendMessage_stamped by blast
  have d: "\<forall>envelope. MessageInbound envelope \<in> set (emitted (snd (sendToBackend io e t))) \<longrightarrow>
         MessageInbound envelope \<in> set (emitted t) \<or> in_sessionId envelope = t_sessionId t"
    using sendToBackend_stamped by blast
  have e1: "sid \<noteq> [] \<Longrightarrow>
        handleInboundMessage T (Some sid) pl now st
          = (case routeToClient T sid pl now st of
               (Inl e, st') \<Rightarrow>
                 mux_emit (MuxError (SessionError
                   (''Failed to handle inbound message: '' @ message_of e) sid)) st'
             | (Inr u, st') \<Rightarrow> st')"
    by (rule handleInboundMessage_with_session)
  have e2: "sid \<noteq> [] \<Longrightarrow> map_of (sessions st) sid = None \<Longrightarrow>
            handleInboundMessage T (Some sid) pl now st
              = mux_emit (MuxError (SessionError
                  ''Failed to handle inbound message: Session not found'' sid)) st"
    by (simp add: handleInboundMessage_with_session routeToClient_no_session)
  have e3: "sid \<noteq> [] \<Longrightarrow>
        \<forall>s t0. map_of (sessions st) sid = Some s \<and> \<not> backpressure s
              \<and> transportAdapter st = Some t0 \<and> fst (tr_sendToClient T sid pl t0) = Inr () \<longrightarrow>
            events (handleInboundMessage T (Some sid) pl now st) = events st
          \<and> toClient (handleInboundMessage T (Some sid) pl now st) = toClient st @ [(sid, pl)]"
  proof (intro allI impI)
    fix s t0
    assume n: "sid \<noteq> []"
      and h: "map_of (sessions st) sid = Some s \<and> \<not> backpressure s
              \<and> transportAdapter st = Some t0 \<and> fst (tr_sendToClient T sid pl t0) = Inr ()"
    then have r: "fst (routeToClient T sid pl now st) = Inr ()
       \<and> events (snd (routeToClient T sid pl now st)) = events st
       \<and> toClient (snd (routeToClient T sid pl now st)) = toClient st @ [(sid, pl)]"
      using routeToClient_delivers [of st sid s t0 T pl now] by blast
    obtain x st' where p: "routeToClient T sid pl now st = (x, st')"
      by (cases "routeToClient T sid pl now st")
    show "events (handleInboundMessage T (Some sid) pl now st) = events st
          \<and> toClient (handleInboundMessage T (Some sid) pl now st) = toClient st @ [(sid, pl)]"
      using r p by (simp add: handleInboundMessage_with_session [OF n])
  qed
  show ?thesis using a b c d e1 e2 e3 by blast
qed

theorem inbound_dispatch_witness:
  "\<not> truthy None
   \<and> map_of (messageRoutes q1) (IdNum 77) = None
   \<and> handleInboundMessage T_ok None (mk_msg 9 (Some (IdNum 77))) 8 q1
       = mux_emit (MuxError (SessionError
           ''Unable to route inbound message - no session found'' ''unknown'')) q1
   \<and> toClient (handleInboundMessage T_ok None (mk_msg 9 (Some (IdNum 77))) 8 q1) = toClient q1
   \<and> map_of (messageRoutes q1) (IdNum 0) = Some ''session-5-abc''
   \<and> handleInboundMessage T_ok None (mk_msg 9 (Some (IdNum 0))) 8 q1
       = (case routeToClient T_ok ''session-5-abc'' (mk_msg 9 (Some (IdNum 0))) 8 q1 of
            (Inl e, st') \<Rightarrow>
              mux_emit (MuxError (SessionError
                (''Failed to handle inbound message: '' @ message_of e) ''session-5-abc'')) st'
          | (Inr u, st') \<Rightarrow> st')
   \<and> generateSessionId 5 ''abc'' \<noteq> []
   \<and> MessageInbound (stamped ''session-4-xyz'' 77)
        \<in> set (emitted (handleBackendMessage parse_reply 9 ''{id:77,result:true}'' ws_adapter))
   \<and> MessageInbound (stamped ''session-4-xyz'' 77) \<notin> set (emitted ws_adapter)
   \<and> in_sessionId (stamped ''session-4-xyz'' 77) = t_sessionId ws_adapter
   \<and> map_of (sessions q1) ''session-4-xyz'' = None
   \<and> handleInboundMessage T_ok (Some ''session-4-xyz'') (to_message 9 (reply 77)) 9 q1
       = mux_emit (MuxError (SessionError
           ''Failed to handle inbound message: Session not found'' ''session-4-xyz'')) q1
   \<and> map_of (sessions mux1) ''session-5-abc''
       = Some (new_session default_config ''session-5-abc'' 1 5)
   \<and> events (handleInboundMessage T_ok (Some ''session-5-abc'') (to_message 9 (reply 77)) 9 mux1)
       = events mux1
   \<and> toClient (handleInboundMessage T_ok (Some ''session-5-abc'') (to_message 9 (reply 77)) 9 mux1)
       = [(''session-5-abc'', to_message 9 (reply 77))]"
proof -
  have h: "\<not> truthy None" by (simp add: truthy_def)
  have r77: "map_of (messageRoutes q1) (IdNum 77) = None"
    and r0: "map_of (messageRoutes q1) (IdNum 0) = Some ''session-5-abc''"
    and s1: "map_of (sessions q1) ''session-4-xyz'' = None"
    by (simp_all add: q1_eval)
  have c77: "(case msgId (mk_msg 9 (Some (IdNum 77))) of None \<Rightarrow> True
              | Some i \<Rightarrow> \<not> truthy (map_of (messageRoutes q1) i))"
    by (simp add: mk_msg_def r77 truthy_def)
  have c0: "msgId (mk_msg 9 (Some (IdNum 0))) = Some (IdNum 0)
            \<and> map_of (messageRoutes q1) (IdNum 0) = Some ''session-5-abc'' \<and> ''session-5-abc'' \<noteq> []"
    by (simp add: mk_msg_def r0)
  have em: "emitted (handleBackendMessage parse_reply 9 ''{id:77,result:true}'' ws_adapter)
              = [MessageInbound (stamped ''session-4-xyz'' 77)]"
    by (simp add: handleBackendMessage_def parse_reply_def reply_def envelope_payload_def
          truthy_prop_def get_prop_def emit_def ws_adapter_def new_adapter_def stamped_def)
  have m: "MessageInbound (stamped ''session-4-xyz'' 77)
             \<in> set (emitted (handleBackendMessage parse_reply 9 ''{id:77,result:true}'' ws_adapter))"
    by (simp add: em)
  have n: "MessageInbound (stamped ''session-4-xyz'' 77) \<notin> set (emitted ws_adapter)"
    by (simp add: ws_adapter_def new_adapter_def)
  have ne: "''session-4-xyz'' \<noteq> []" "''session-5-abc'' \<noteq> []" by simp_all
  have d: "map_of (sessions mux1) ''session-5-abc''
             = Some (new_session default_config ''session-5-abc'' 1 5)
           \<and> \<not> backpressure (new_session default_config ''session-5-abc'' 1 5)
           \<and> transportAdapter mux1 = Some ()
           \<and> fst (tr_sendToClient T_ok ''session-5-abc'' (to_message 9 (reply 77)) ()) = Inr ()"
    by (simp add: mux1_eval new_session_def T_ok_def)
  have tc: "toClient mux1 = []" by (simp add: mux1_eval)
  note A = inbound_dispatch [where so = None and pl = "mk_msg 9 (Some (IdNum 77))" and st = q1
      and T = T_ok and now = 8 and tick = 5 and rnd = "''abc''" and parse = parse_reply
      and clock = 9 and frame = "''{id:77,result:true}''" and t = ws_adapter]
  note B = inbound_dispatch [where so = None and pl = "mk_msg 9 (Some (IdNum 0))" and st = q1
      and T = T_ok and now = 8]
  note C = inbound_dispatch [where sid = "''session-4-xyz''" and pl = "to_message 9 (reply 77)" and st = q1
      and T = T_ok and now = 9]
  note D = inbound_dispatch [where sid = "''session-5-abc''" and pl = "to_message 9 (reply 77)"
      and st = mux1 and T = T_ok and now = 9]
  have a1: "handleInboundMessage T_ok None (mk_msg 9 (Some (IdNum 77))) 8 q1
       = mux_emit (MuxError (SessionError
           ''Unable to route inbound message - no session found'' ''unknown'')) q1
    \<and> toClient (handleInboundMessage T_ok None (mk_msg 9 (Some (IdNum 77))) 8 q1) = toClient q1"
    using A h c77 by blast
  have a2: "generateSessionId 5 ''abc'' \<noteq> []" using A by blast
  have a3: "in_sessionId (stamped ''session-4-xyz'' 77) = t_sessionId ws_adapter"
    using A m n by blast
  have b1: "handleInboundMessage T_ok None (mk_msg 9 (Some (IdNum 0))) 8 q1
       = (case routeToClient T_ok ''session-5-abc'' (mk_msg 9 (Some (IdNum 0))) 8 q1 of
            (Inl e, st') \<Rightarrow>
              mux_emit (MuxError (SessionError
                (''Failed to handle inbound message: '' @ message_of e) ''session-5-abc'')) st'
          | (Inr u, st') \<Rightarrow> st')"
    using B h c0 by blast
  have c1: "handleInboundMessage T_ok (Some ''session-4-xyz'') (to_message 9 (reply 77)) 9 q1
       = mux_emit (MuxError (SessionError
           ''Failed to handle inbound message: Session not found'' ''session-4-xyz'')) q1"
    using C ne(1) s1 by blast
  have d1: "events (handleInboundMessage T_ok (Some ''session-5-abc'') (to_message 9 (reply 77)) 9 mux1)
              = events mux1
     \<and> toClient (handleInboundMessage T_ok (Some ''session-5-abc'') (to_message 9 (reply 77)) 9 mux1)
         = toClient mux1 @ [(''session-5-abc'', to_message 9 (reply 77))]"
    using D ne(2) d by blast
  have d2: "events (handleInboundMessage T_ok (Some ''session-5-abc'') (to_message 9 (reply 77)) 9 mux1)
              = events mux1
     \<and> toClient (handleInboundMessage T_ok (Some ''session-5-abc'') (to_message 9 (reply 77)) 9 mux1)
         = [(''session-5-abc'', to_message 9 (reply 77))]"
    using d1 by (simp add: tc)
  show ?thesis
    using h r77 r0 s1 a1 a2 a3 b1 c1 d d2 m n by blast
qed

text \<open>
  C8 as stated resolves a bare backend reply through the routing table. The multiplexer
  \<open>sent0\<close> has routed a request with id 0 for its session \<open>session-5-abc\<close>; the bare reply
  with id 0 leaves the adapter stamped with the adapter's own session id, which is not a
  session of the multiplexer, so the reply is not delivered to the session the table
  records and the error is "Session not found". A bare reply with the id 77, which was
  never recorded, ends the same way and not with "Unable to route inbound message".
\<close>

theorem stamped_reply_not_resolved_by_id_counterexample:
  "map_of (messageRoutes sent0) (IdNum 0) = Some ''session-5-abc''
   \<and> map fst (sessions sent0) = [''session-5-abc'']
   \<and> map_option (\<lambda>t. (t_sessionId t,
                         emitted (handleBackendMessage parse_reply 9 ''{id:0,result:true}'' t)))
         (transportAdapter sent0)
       = Some (''session-4-xyz'', [MessageInbound (stamped ''session-4-xyz'' 0)])
   \<and> on_message_inbound (stdio_ops io_answers io_stdout) 1 (stamped ''session-4-xyz'' 0) 9 sent0
       = mux_emit (MuxError (SessionError
           ''Failed to handle inbound message: Session not found'' ''session-4-xyz'')) sent0
   \<and> toClient (on_message_inbound (stdio_ops io_answers io_stdout) 1 (stamped ''session-4-xyz'' 0) 9 sent0) = []
   \<and> map_of (messageRoutes sent0) (IdNum 77) = None
   \<and> map_option (\<lambda>t. emitted (handleBackendMessage parse_reply 9 ''{id:77,result:true}'' t))
         (transportAdapter sent0)
       = Some [MessageInbound (stamped ''session-4-xyz'' 77)]
   \<and> on_message_inbound (stdio_ops io_answers io_stdout) 2 (stamped ''session-4-xyz'' 77) 9 sent0
       = mux_emit (MuxError (SessionError
           ''Failed to handle inbound message: Session not found'' ''session-4-xyz'')) sent0
   \<and> on_message_inbound (stdio_ops io_answers io_stdout) 2 (stamped ''session-4-xyz'' 77) 9 sent0
       \<noteq> mux_emit (MuxError (SessionError
           ''Unable to route inbound message - no session found'' ''unknown'')) sent0"
proof -
  have s: "map_of (sessions sent0) ''session-4-xyz'' = None" "toClient sent0 = []"
    "map_of (messageRoutes sent0) (IdNum 0) = Some ''session-5-abc''"
    "map_of (messageRoutes sent0) (IdNum 77) = None"
    "map fst (sessions sent0) = [''session-5-abc'']"
    "transportAdapter sent0 = Some (setResponseTimeout 1 ws_adapter)"
    by (simp_all add: sent0_eval wired_ws_def mux_eval)
  have em: "emitted (handleBackendMessage parse_reply 9 ''{id:0,result:true}''
                       (setResponseTimeout 1 ws_adapter)) = [MessageInbound (stamped ''session-4-xyz'' 0)]"
    "emitted (handleBackendMessage parse_reply 9 ''{id:77,result:true}''
                       (setResponseTimeout 1 ws_adapter)) = [MessageInbound (stamped ''session-4-xyz'' 77)]"
    "t_sessionId (setResponseTimeout 1 ws_adapter) = ''session-4-xyz''"
    by (simp_all add: handleBackendMessage_def parse_reply_def reply_def envelope_payload_def
          truthy_prop_def get_prop_def emit_def ws_adapter_def new_adapter_def stamped_def
          setResponseTimeout_def)
  have l: "on_message_inbound (stdio_ops io_answers io_stdout) r (stamped ''session-4-xyz'' i) 9 sent0
       = mux_emit (MuxError (SessionError
           ''Failed to handle inbound message: Session not found'' ''session-4-xyz'')) sent0" for r i
    by (simp add: on_message_inbound_def stamped_def handleInboundMessage_def truthy_def Let_def
          routeToClient_def s)
  have ne: "mux_emit (MuxError (SessionError
           ''Failed to handle inbound message: Session not found'' ''session-4-xyz'')) sent0
       \<noteq> mux_emit (MuxError (SessionError
           ''Unable to route inbound message - no session found'' ''unknown'')) sent0"
  proof
    assume "mux_emit (MuxError (SessionError
           ''Failed to handle inbound message: Session not found'' ''session-4-xyz'')) sent0
       = mux_emit (MuxError (SessionError
           ''Unable to route inbound message - no session found'' ''unknown'')) sent0"
    then have "events (mux_emit (MuxError (SessionError
           ''Failed to handle inbound message: Session not found'' ''session-4-xyz'')) sent0)
       = events (mux_emit (MuxError (SessionError
           ''Unable to route inbound message - no session found'' ''unknown'')) sent0)"
      by simp
    then show False by (simp add: mux_emit_def)
  qed
  have k0: "map_option (\<lambda>t. (t_sessionId t,
                         emitted (handleBackendMessage parse_reply 9 ''{id:0,result:true}'' t)))
         (transportAdapter sent0)
       = Some (''session-4-xyz'', [MessageInbound (stamped ''session-4-xyz'' 0)])"
    by (simp only: s(6) option.map em)
  have k77: "map_option (\<lambda>t. emitted (handleBackendMessage parse_reply 9 ''{id:77,result:true}'' t))
         (transportAdapter sent0)
       = Some [MessageInbound (stamped ''session-4-xyz'' 77)]"
    by (simp only: s(6) option.map em)
  have tc: "toClient (on_message_inbound (stdio_ops io_answers io_stdout) 1 (stamped ''session-4-xyz'' 0) 9 sent0) = []"
    by (simp add: l mux_emit_def s)
  have ne': "on_message_inbound (stdio_ops io_answers io_stdout) 2 (stamped ''session-4-xyz'' 77) 9 sent0
       \<noteq> mux_emit (MuxError (SessionError
           ''Unable to route inbound message - no session found'' ''unknown'')) sent0"
    unfolding l by (rule ne)
  show ?thesis
    using s(3,5,4) k0 k77 l [of 1 0] l [of 2 77] tc ne' by blast
qed

end
